theory Spec2Isabelle
  imports Main
begin

section \<open>Status codes and Go errors\<close>

text \<open>
  The gRPC status codes the driver returns (\<open>codes.InvalidArgument\<close>, ...). \<open>Unknown\<close> is
  what \<open>status.Code\<close> gives for an error that carries no status.
\<close>

datatype Code =
    OK | InvalidArgument | NotFound | AlreadyExists | FailedPrecondition
  | Aborted | Unimplemented | Internal | Unknown

text \<open>
  A Go \<open>error\<close> value, by the ways the driver builds and inspects one:
  \<open>Status c msg\<close> is \<open>status.Error(c, msg)\<close>; \<open>GCEError reason\<close> is an error of the cloud
  API, told apart by its reason with \<open>gce.IsGCEError\<close>; \<open>NotExist msg\<close> is an operating
  system error for which \<open>os.IsNotExist\<close> holds; \<open>Errorf msg\<close> is \<open>fmt.Errorf\<close>.
  A message keeps the constant text of its format string; the formatted arguments are
  left out unless a statement below is about them.
\<close>

datatype error =
    Status Code string
  | GCEError string
  | NotExist string
  | Errorf string

fun codeOf :: "error \<Rightarrow> Code" where
  "codeOf (Status c msg) = c"
| "codeOf (GCEError reason) = Unknown"
| "codeOf (NotExist msg) = Unknown"
| "codeOf (Errorf msg) = Unknown"

fun IsNotExist :: "error \<Rightarrow> bool" where
  "IsNotExist (NotExist msg) = True"
| "IsNotExist (Status c msg) = False"
| "IsNotExist (GCEError reason) = False"
| "IsNotExist (Errorf msg) = False"

text \<open>
  Modelled from the spec: \<open>gce.IsGCEError\<close> is not under src/. The spec has the cloud report
  one condition per failure ("already exists", "not found", "in use by another resource");
  \<open>IsGCEError err reason\<close> holds when \<open>err\<close> is a cloud error reporting \<open>reason\<close>.
\<close>

fun IsGCEError :: "error \<Rightarrow> string \<Rightarrow> bool" where
  "IsGCEError (GCEError r) reason = (r = reason)"
| "IsGCEError (Status c msg) reason = False"
| "IsGCEError (NotExist msg) reason = False"
| "IsGCEError (Errorf msg) reason = False"

section \<open>Constants\<close>

definition MinimumVolumeSizeInBytes :: int where
  "MinimumVolumeSizeInBytes = 5 * 1024 * 1024 * 1024"

definition MinimumDiskSizeInGb :: int where
  "MinimumDiskSizeInGb = 5"

definition attachableDiskTypePersistent :: string where
  "attachableDiskTypePersistent = ''PERSISTENT''"

definition ParameterKeyType :: string where
  "ParameterKeyType = ''type''"

definition ParameterKeyReplicationType :: string where
  "ParameterKeyReplicationType = ''replication-type''"

definition ParameterKeyDiskEncryptionKmsKey :: string where
  "ParameterKeyDiskEncryptionKmsKey = ''disk-encryption-kms-key''"

definition TopologyKeyZone :: string where
  "TopologyKeyZone = ''topology.gke.io/zone''"

definition VolumeAttributePartition :: string where
  "VolumeAttributePartition = ''partition''"

text \<open>
  Modelled from the spec: \<open>CreateVolume\<close> switches on \<open>common.ParameterKeyZone\<close>, which
  constants.go under src/ does not declare. The spec names it only as "a zone override
  key" of the StorageClass-style parameters; it is taken to be \<open>zone\<close>.
\<close>

definition ParameterKeyZone :: string where
  "ParameterKeyZone = ''zone''"

section \<open>Capacity resolution\<close>

text \<open>
  \<open>csi.CapacityRange\<close>: two \<open>int64\<close> fields. \<open>getRequestCapacity\<close> only compares them, so
  they are integers here and no arithmetic can wrap. A nil range is \<open>None\<close>; the getters
  are the generated nil-safe ones.
\<close>

record CapacityRange =
  RequiredBytes :: int
  LimitBytes :: int

definition GetRequiredBytes :: "CapacityRange option \<Rightarrow> int" where
  "GetRequiredBytes capRange = (case capRange of None \<Rightarrow> 0 | Some c \<Rightarrow> RequiredBytes c)"

definition GetLimitBytes :: "CapacityRange option \<Rightarrow> int" where
  "GetLimitBytes capRange = (case capRange of None \<Rightarrow> 0 | Some c \<Rightarrow> LimitBytes c)"

definition getRequestCapacity :: "CapacityRange option \<Rightarrow> error + int" where
  "getRequestCapacity capRange =
     (case capRange of
        None \<Rightarrow> Inr MinimumVolumeSizeInBytes
      | Some c \<Rightarrow>
          (let rBytes = GetRequiredBytes capRange;
               rSet = (rBytes > 0);
               lBytes = GetLimitBytes capRange;
               lSet = (lBytes > 0)
           in if lSet \<and> rSet \<and> lBytes < rBytes
              then Inl (Errorf ''Limit bytes is less than required bytes'')
              else if lSet \<and> lBytes < MinimumVolumeSizeInBytes
              then Inl (Errorf ''Limit bytes is less than minimum volume size'')
              else (let capBytes = (if rSet then rBytes else 0)
                    in Inr (if capBytes < MinimumVolumeSizeInBytes
                            then MinimumVolumeSizeInBytes else capBytes))))"

section \<open>Strings\<close>

text \<open>
  \<open>strings.ToLower\<close> on the bytes of a string: the letters \<open>A\<close> to \<open>Z\<close> become \<open>a\<close> to
  \<open>z\<close>, every other byte is kept. (Parameter keys and the keys the driver compares them
  with are ASCII.)
\<close>

definition toLowerChar :: "char \<Rightarrow> char" where
  "toLowerChar c =
     (case map_of (zip ''ABCDEFGHIJKLMNOPQRSTUVWXYZ'' ''abcdefghijklmnopqrstuvwxyz'') c of
        None \<Rightarrow> c
      | Some l \<Rightarrow> l)"

definition ToLower :: "string \<Rightarrow> string" where
  "ToLower s = map toLowerChar s"

section \<open>Topology selection\<close>

text \<open>
  \<open>csi.Topology\<close> holds a map of segments; a nil map (or a nil topology) is \<open>None\<close>. Go
  ranges over a map in no fixed order, so a map that is iterated is the list of its
  entries in the order of that iteration, and every statement below holds for each order.
\<close>

record Topology =
  Segments :: "(string \<times> string) list option"

record TopologyRequirement =
  Requisite :: "Topology list"
  Preferred :: "Topology list"

text \<open>The loop of \<open>getZoneFromSegment\<close>: \<open>zone\<close> is the variable it assigns.\<close>

fun getZoneFromSegment_range :: "(string \<times> string) list \<Rightarrow> string \<Rightarrow> error + string" where
  "getZoneFromSegment_range [] zone = Inr zone"
| "getZoneFromSegment_range ((k, v) # seg) zone =
     (if k = TopologyKeyZone then getZoneFromSegment_range seg v
      else Inl (Errorf (''topology segment has unknown key '' @ k)))"

definition getZoneFromSegment :: "(string \<times> string) list \<Rightarrow> error + string" where
  "getZoneFromSegment seg =
     (case getZoneFromSegment_range seg [] of
        Inl err \<Rightarrow> Inl err
      | Inr zone \<Rightarrow>
          if length zone = 0
          then Inl (Errorf ''topology specified but could not find zone in segment'')
          else Inr zone)"

text \<open>
  \<open>rand.Intn n\<close> returns some number in \<open>[0, n)\<close> for \<open>n > 0\<close>. The state of the random
  source is the number \<open>seed\<close>; as \<open>seed\<close> ranges over the naturals, \<open>Intn seed n\<close> ranges
  over exactly the values the call can return.
\<close>

definition Intn :: "nat \<Rightarrow> nat \<Rightarrow> nat" where
  "Intn seed n = seed mod n"

definition pickTopology :: "TopologyRequirement \<Rightarrow> nat \<Rightarrow> error + string" where
  "pickTopology topo seed =
     (let reqTop = Requisite topo;
          prefTop = Preferred topo
      in if length prefTop \<noteq> 0 then
           (case Segments (prefTop ! 0) of
              None \<Rightarrow> Inl (Errorf ''preferred topologies specified but no segments'')
            | Some seg \<Rightarrow>
                (case getZoneFromSegment seg of
                   Inl err \<Rightarrow> Inl (Errorf ''could not get zone from preferred topology'')
                 | Inr zone \<Rightarrow> Inr zone))
         else if length reqTop \<noteq> 0 then
           (let r = Intn seed (length reqTop)
            in case Segments (reqTop ! r) of
                 None \<Rightarrow>
                   Inl (Errorf ''requisite topologies specified but no segments in requisite topology'')
               | Some seg \<Rightarrow>
                   (case getZoneFromSegment seg of
                      Inl err \<Rightarrow> Inl (Errorf ''could not get zone from requisite topology'')
                    | Inr zone \<Rightarrow> Inr zone))
         else Inl (Errorf
           ''accessibility requirements specified but no requisite or preferred topologies''))"

section \<open>Volume identifiers\<close>

text \<open>
  Modelled from the spec: \<open>common.CombineVolumeId\<close>, \<open>common.SplitZoneNameId\<close> and
  \<open>common.VolumeIDToKey\<close> are not under src/. The spec's codec: \<open>Encode(zone, name)\<close>
  returns \<open>zone/name\<close> with no escaping; \<open>Decode\<close> splits on the separator and fails unless
  the identifier has exactly the expected separator structure (one separator).
\<close>

definition CombineVolumeId :: "string \<Rightarrow> string \<Rightarrow> string" where
  "CombineVolumeId zone name = zone @ ''/'' @ name"

definition SplitZoneNameId :: "string \<Rightarrow> error + (string \<times> string)" where
  "SplitZoneNameId volumeID =
     (if count_list volumeID (CHR ''/'') = 1
      then Inr (takeWhile (\<lambda>c. c \<noteq> CHR ''/'') volumeID,
                tl (dropWhile (\<lambda>c. c \<noteq> CHR ''/'') volumeID))
      else Inl (Errorf ''failed to get id components''))"

record VolumeKey =
  VolumeKey_Zone :: string
  VolumeKey_Name :: string

definition VolumeIDToKey :: "string \<Rightarrow> error + VolumeKey" where
  "VolumeIDToKey volumeID =
     (case SplitZoneNameId volumeID of
        Inl err \<Rightarrow> Inl err
      | Inr (zone, name) \<Rightarrow> Inr \<lparr>VolumeKey_Zone = zone, VolumeKey_Name = name\<rparr>)"

text \<open>
  Modelled from the spec: \<open>common.BytesToGb\<close> is not under src/; the create request is
  "sized to the resolved capacity" in whole GiB.
\<close>

definition BytesToGb :: "int \<Rightarrow> int" where
  "BytesToGb bytes = bytes div (1024 * 1024 * 1024)"

section \<open>Volume capabilities\<close>

text \<open>
  \<open>csi.VolumeCapability\<close>: the access type is a oneof of mount and block, which a message
  may also leave unset (then both \<open>GetMount\<close> and \<open>GetBlock\<close> return nil).
\<close>

record MountVolume =
  FsType :: string
  MountFlags :: "string list"

datatype VolumeCapability_AccessType =
    VolumeCapability_Mount MountVolume
  | VolumeCapability_Block
  | VolumeCapability_unset

record VolumeCapability =
  AccessType :: VolumeCapability_AccessType
  AccessMode :: int

definition GetMount :: "VolumeCapability \<Rightarrow> MountVolume option" where
  "GetMount c = (case AccessType c of VolumeCapability_Mount mnt \<Rightarrow> Some mnt | _ \<Rightarrow> None)"

definition GetBlock :: "VolumeCapability \<Rightarrow> unit option" where
  "GetBlock c = (case AccessType c of VolumeCapability_Block \<Rightarrow> Some () | _ \<Rightarrow> None)"

section \<open>The cloud disk client\<close>

text \<open>
  \<open>compute.Disk\<close>, \<open>compute.AttachedDisk\<close> and \<open>compute.Instance\<close>, with the fields the
  controller reads or writes.
\<close>

record Disk =
  Disk_Name :: string
  Disk_SizeGb :: int
  Disk_Description :: string
  Disk_Type :: string
  Disk_Kind :: string

record AttachedDisk =
  AttachedDisk_DeviceName :: string
  AttachedDisk_Kind :: string
  AttachedDisk_Mode :: string
  AttachedDisk_Source :: string
  AttachedDisk_Type :: string

record Instance =
  Instance_Disks :: "AttachedDisk list"

type_synonym Operation = string

text \<open>
  \<open>gce.GCECompute\<close> is an interface: the controller holds one as \<open>CloudProvider\<close> and calls
  it. A provider is a record of its methods over the cloud's state \<open>'c\<close>; a method that
  talks to the cloud takes the state and returns the new one beside its result. A Go
  result \<open>(x, err)\<close> of which the caller reads \<open>x\<close> only when \<open>err\<close> is nil is a sum
  (\<open>Inl err\<close> or \<open>Inr x\<close>), and a lone \<open>error\<close> result is an option. The context
  argument is left out.
\<close>

record 'c GCECompute =
  GetZone :: string
  GetDiskTypeURI :: "string \<Rightarrow> string \<Rightarrow> string"
  GetDiskSourceURI :: "Disk \<Rightarrow> string \<Rightarrow> string"
  GetAndValidateExistingDisk ::
    "string \<Rightarrow> string \<Rightarrow> string \<Rightarrow> int \<Rightarrow> int \<Rightarrow> 'c \<Rightarrow> (error + bool) \<times> 'c"
  InsertDisk :: "string \<Rightarrow> Disk \<Rightarrow> 'c \<Rightarrow> (error + Operation) \<times> 'c"
  DeleteDisk :: "string \<Rightarrow> string \<Rightarrow> 'c \<Rightarrow> (error + Operation) \<times> 'c"
  WaitForOp :: "Operation \<Rightarrow> string \<Rightarrow> 'c \<Rightarrow> error option \<times> 'c"
  GetDiskOrError :: "string \<Rightarrow> string \<Rightarrow> 'c \<Rightarrow> (error + Disk) \<times> 'c"
  GetInstanceOrError :: "string \<Rightarrow> string \<Rightarrow> 'c \<Rightarrow> (error + Instance) \<times> 'c"
  AttachDisk :: "string \<Rightarrow> string \<Rightarrow> AttachedDisk \<Rightarrow> 'c \<Rightarrow> (error + Operation) \<times> 'c"
  WaitForAttach :: "string \<Rightarrow> string \<Rightarrow> string \<Rightarrow> 'c \<Rightarrow> error option \<times> 'c"

section \<open>Controller service: CreateVolume\<close>

record CreateVolumeRequest =
  cv_Name :: string
  cv_VolumeCapabilities :: "VolumeCapability list"
  cv_CapacityRange :: "CapacityRange option"
  cv_Parameters :: "(string \<times> string) list"
  cv_AccessibilityRequirements :: "TopologyRequirement option"

text \<open>\<open>csi.Volume\<close>, the content of a \<open>CreateVolumeResponse\<close> (\<open>Attributes\<close> is always nil).\<close>

record Volume =
  Volume_CapacityBytes :: int
  Volume_Id :: string
  Volume_AccessibleTopology :: "Topology list"

text \<open>
  The loop over \<open>req.GetParameters()\<close> in \<open>CreateVolume\<close>, on the entries in the order of
  the iteration; \<open>diskType\<close> and \<open>configuredZone\<close> are the variables it assigns, and an
  unknown key returns from \<open>CreateVolume\<close> with the error.
\<close>

fun CreateVolume_parameters ::
  "(string \<times> string) list \<Rightarrow> string \<Rightarrow> string \<Rightarrow> error + (string \<times> string)" where
  "CreateVolume_parameters [] diskType configuredZone = Inr (diskType, configuredZone)"
| "CreateVolume_parameters ((k, v) # params) diskType configuredZone =
     (if k = ''csiProvisionerSecretName'' \<or> k = ''csiProvisionerSecretNamespace''
      then CreateVolume_parameters params diskType configuredZone
      else if ToLower k = ParameterKeyType
      then CreateVolume_parameters params v configuredZone
      else if ToLower k = ParameterKeyZone
      then CreateVolume_parameters params diskType v
      else Inl (Status InvalidArgument (''invalid option '' @ k)))"

text \<open>
  The zone of the new disk: the parameter zone, or the zone picked from the accessibility
  requirements (never both), or else the zone the driver runs in.
\<close>

definition CreateVolume_zone ::
  "'c GCECompute \<Rightarrow> nat \<Rightarrow> TopologyRequirement option \<Rightarrow> string \<Rightarrow> error + string" where
  "CreateVolume_zone gceCS seed accessibilityRequirements configuredZone =
     (case accessibilityRequirements of
        None \<Rightarrow> Inr (if length configuredZone = 0 then GetZone gceCS else configuredZone)
      | Some topo \<Rightarrow>
          if length configuredZone \<noteq> 0
          then Inl (Status InvalidArgument
            ''CreateVolume only one of parameter zone or topology zone may be specified'')
          else (case pickTopology topo seed of
                  Inl err \<Rightarrow> Inl (Status InvalidArgument ''CreateVolume failed to pick topology'')
                | Inr zone \<Rightarrow> Inr (if length zone = 0 then GetZone gceCS else zone)))"

text \<open>
  The second call of \<open>GetAndValidateExistingDisk\<close>, made when the insert or its operation
  reports "alreadyExists": its error is returned, its \<open>exists\<close> result is not read.
\<close>

definition CreateVolume_recheck ::
  "'c GCECompute \<Rightarrow> string \<Rightarrow> string \<Rightarrow> string \<Rightarrow> CapacityRange option \<Rightarrow> Volume \<Rightarrow> 'c
     \<Rightarrow> (error + Volume) \<times> 'c" where
  "CreateVolume_recheck gceCS configuredZone name diskType capacityRange createResp s =
     (case GetAndValidateExistingDisk gceCS configuredZone name diskType
             (GetRequiredBytes capacityRange) (GetLimitBytes capacityRange) s of
        (Inl err, s') \<Rightarrow> (Inl err, s')
      | (Inr exists, s') \<Rightarrow> (Inr createResp, s'))"

text \<open>
  \<open>CreateVolume\<close> from the response it prepares to its end: the check for an existing
  disk, the insert, and the wait for the insert operation.
\<close>

definition CreateVolume_disk ::
  "'c GCECompute \<Rightarrow> string \<Rightarrow> string \<Rightarrow> string \<Rightarrow> CapacityRange option \<Rightarrow> int \<Rightarrow> 'c
     \<Rightarrow> (error + Volume) \<times> 'c" where
  "CreateVolume_disk gceCS configuredZone name diskType capacityRange capBytes s =
     (let createResp =
            \<lparr>Volume_CapacityBytes = capBytes,
             Volume_Id = CombineVolumeId configuredZone name,
             Volume_AccessibleTopology =
               [\<lparr>Segments = Some [(TopologyKeyZone, configuredZone)]\<rparr>]\<rparr>
      in case GetAndValidateExistingDisk gceCS configuredZone name diskType
                (GetRequiredBytes capacityRange) (GetLimitBytes capacityRange) s of
           (Inl err, s1) \<Rightarrow> (Inl err, s1)
         | (Inr exists, s1) \<Rightarrow>
             if exists then (Inr createResp, s1)
             else
               (let sizeGb = BytesToGb capBytes;
                    sizeGb = (if sizeGb < MinimumDiskSizeInGb then MinimumDiskSizeInGb else sizeGb);
                    diskToCreate =
                      \<lparr>Disk_Name = name,
                       Disk_SizeGb = sizeGb,
                       Disk_Description = ''Disk created by GCE-PD CSI Driver'',
                       Disk_Type = GetDiskTypeURI gceCS configuredZone diskType,
                       Disk_Kind = []\<rparr>
                in case InsertDisk gceCS configuredZone diskToCreate s1 of
                     (Inl err, s2) \<Rightarrow>
                       if IsGCEError err ''alreadyExists''
                       then CreateVolume_recheck gceCS configuredZone name diskType
                              capacityRange createResp s2
                       else (Inl (Status Internal ''unkown Insert disk error''), s2)
                   | (Inr insertOp, s2) \<Rightarrow>
                       (case WaitForOp gceCS insertOp configuredZone s2 of
                          (Some err, s3) \<Rightarrow>
                            if IsGCEError err ''alreadyExists''
                            then CreateVolume_recheck gceCS configuredZone name diskType
                                   capacityRange createResp s3
                            else (Inl (Status Internal ''unkown Insert disk operation error''), s3)
                        | (None, s3) \<Rightarrow> (Inr createResp, s3))))"

definition CreateVolume ::
  "'c GCECompute \<Rightarrow> nat \<Rightarrow> CreateVolumeRequest \<Rightarrow> 'c \<Rightarrow> (error + Volume) \<times> 'c" where
  "CreateVolume gceCS seed req s =
     (let volumeCapabilities = cv_VolumeCapabilities req;
          name = cv_Name req;
          capacityRange = cv_CapacityRange req
      in if length name = 0
         then (Inl (Status InvalidArgument ''CreateVolume Name must be provided''), s)
         else if length volumeCapabilities = 0
         then (Inl (Status InvalidArgument ''CreateVolume Volume capabilities must be provided''), s)
         else
           (case getRequestCapacity capacityRange of
              Inl err \<Rightarrow>
                (Inl (Status InvalidArgument ''CreateVolume Request Capacity is invalid''), s)
            | Inr capBytes \<Rightarrow>
                (case CreateVolume_parameters (cv_Parameters req) ''pd-standard'' [] of
                   Inl err \<Rightarrow> (Inl err, s)
                 | Inr (diskType, configuredZone) \<Rightarrow>
                     (case CreateVolume_zone gceCS seed (cv_AccessibilityRequirements req)
                             configuredZone of
                        Inl err \<Rightarrow> (Inl err, s)
                      | Inr configuredZone \<Rightarrow>
                          CreateVolume_disk gceCS configuredZone name diskType capacityRange
                            capBytes s))))"

section \<open>Controller service: DeleteVolume\<close>

definition DeleteVolume :: "'c GCECompute \<Rightarrow> string \<Rightarrow> 'c \<Rightarrow> (error + unit) \<times> 'c" where
  "DeleteVolume gceCS volumeID s =
     (if length volumeID = 0
      then (Inl (Status InvalidArgument ''DeleteVolume Volume ID must be provided''), s)
      else
        (case SplitZoneNameId volumeID of
           Inl err \<Rightarrow> (Inr (), s)
         | Inr (zone, name) \<Rightarrow>
             (case DeleteDisk gceCS zone name s of
                (Inl err, s1) \<Rightarrow>
                  if IsGCEError err ''resourceInUseByAnotherResource''
                  then (Inl (Status FailedPrecondition ''Volume in use''), s1)
                  else if IsGCEError err ''notFound''
                  then (Inr (), s1)
                  else (Inl (Status Internal ''unknown Delete disk error''), s1)
              | (Inr deleteOp, s1) \<Rightarrow>
                  (case WaitForOp gceCS deleteOp zone s1 of
                     (Some err, s2) \<Rightarrow>
                       (Inl (Status Internal ''unknown Delete disk operation error''), s2)
                   | (None, s2) \<Rightarrow> (Inr (), s2)))))"

section \<open>Controller service: ControllerPublishVolume\<close>

record ControllerPublishVolumeRequest =
  cpv_VolumeId :: string
  cpv_NodeId :: string
  cpv_VolumeCapability :: "VolumeCapability option"
  cpv_Readonly :: bool

text \<open>
  The loop of \<open>diskIsAttachedAndCompatible\<close> over \<open>instance.Disks\<close>. On a mode mismatch the
  Go function returns \<open>true\<close> with an error, so the result is the pair.
\<close>

fun diskIsAttachedAndCompatible_range ::
  "AttachedDisk list \<Rightarrow> Disk \<Rightarrow> string \<Rightarrow> bool \<times> error option" where
  "diskIsAttachedAndCompatible_range [] volume readWrite = (False, None)"
| "diskIsAttachedAndCompatible_range (disk # disks) volume readWrite =
     (if AttachedDisk_DeviceName disk = Disk_Name volume
      then (if AttachedDisk_Mode disk \<noteq> readWrite
            then (True, Some (Errorf ''disk mode does not match''))
            else (True, None))
      else diskIsAttachedAndCompatible_range disks volume readWrite)"

definition diskIsAttachedAndCompatible ::
  "Disk \<Rightarrow> Instance \<Rightarrow> VolumeCapability \<Rightarrow> string \<Rightarrow> bool \<times> error option" where
  "diskIsAttachedAndCompatible volume instance volumeCapability readWrite =
     diskIsAttachedAndCompatible_range (Instance_Disks instance) volume readWrite"

text \<open>\<open>ControllerPublishVolume\<close> from the attach request it builds to its end.\<close>

definition ControllerPublishVolume_attach ::
  "'c GCECompute \<Rightarrow> string \<Rightarrow> string \<Rightarrow> Disk \<Rightarrow> string \<Rightarrow> 'c \<Rightarrow> (error + unit) \<times> 'c" where
  "ControllerPublishVolume_attach gceCS volumeZone nodeID disk readWrite s =
     (let source = GetDiskSourceURI gceCS disk volumeZone;
          attachedDiskV1 =
            \<lparr>AttachedDisk_DeviceName = Disk_Name disk,
             AttachedDisk_Kind = Disk_Kind disk,
             AttachedDisk_Mode = readWrite,
             AttachedDisk_Source = source,
             AttachedDisk_Type = attachableDiskTypePersistent\<rparr>
      in case AttachDisk gceCS volumeZone nodeID attachedDiskV1 s of
           (Inl err, s1) \<Rightarrow> (Inl (Status Internal ''unknown Attach error''), s1)
         | (Inr attachOp, s1) \<Rightarrow>
             (case WaitForOp gceCS attachOp volumeZone s1 of
                (Some err, s2) \<Rightarrow> (Inl (Status Internal ''unknown Attach operation error''), s2)
              | (None, s2) \<Rightarrow>
                  (case WaitForAttach gceCS volumeZone (Disk_Name disk) nodeID s2 of
                     (Some err, s3) \<Rightarrow> (Inl (Status Internal ''unknown WaitForAttach error''), s3)
                   | (None, s3) \<Rightarrow> (Inr (), s3))))"

definition ControllerPublishVolume ::
  "'c GCECompute \<Rightarrow> ControllerPublishVolumeRequest \<Rightarrow> 'c \<Rightarrow> (error + unit) \<times> 'c" where
  "ControllerPublishVolume gceCS req s =
     (let volumeID = cpv_VolumeId req;
          readOnly = cpv_Readonly req;
          nodeID = cpv_NodeId req
      in if length volumeID = 0
         then (Inl (Status InvalidArgument
                 ''ControllerPublishVolume Volume ID must be provided''), s)
         else if length nodeID = 0
         then (Inl (Status InvalidArgument
                 ''ControllerPublishVolume Node ID must be provided''), s)
         else
           (case cpv_VolumeCapability req of
              None \<Rightarrow>
                (Inl (Status InvalidArgument
                   ''ControllerPublishVolume Volume capability must be provided''), s)
            | Some volumeCapability \<Rightarrow>
                (case SplitZoneNameId volumeID of
                   Inl err \<Rightarrow> (Inl (Status NotFound ''Could not find volume with ID''), s)
                 | Inr (volumeZone, volumeName) \<Rightarrow>
                     (case GetDiskOrError gceCS volumeZone volumeName s of
                        (Inl err, s1) \<Rightarrow> (Inl err, s1)
                      | (Inr disk, s1) \<Rightarrow>
                          (case GetInstanceOrError gceCS volumeZone nodeID s1 of
                             (Inl err, s2) \<Rightarrow>
                               if IsGCEError err ''notFound''
                               then (Inl (Status NotFound ''Could not find instance''), s2)
                               else (Inl (Status Internal ''Unknown get instance error''), s2)
                           | (Inr instance, s2) \<Rightarrow>
                               (let readWrite = (if readOnly then ''READ_ONLY'' else ''READ_WRITE'')
                                in case diskIsAttachedAndCompatible disk instance
                                          volumeCapability readWrite of
                                     (attached, Some err) \<Rightarrow>
                                       (Inl (Status AlreadyExists
                                          ''Disk already published to node but incompatbile''), s2)
                                   | (attached, None) \<Rightarrow>
                                       if attached then (Inr (), s2)
                                       else ControllerPublishVolume_attach gceCS volumeZone
                                              nodeID disk readWrite s2))))))"

section \<open>Volume locks\<close>

text \<open>
  Modelled from the spec: \<open>common.VolumeLocks\<close> is not under src/. The registry is the set
  of identifiers in use; \<open>TryAcquire\<close> does not block: it returns false when the identifier
  is held, and otherwise takes it; \<open>Release\<close> frees it.
\<close>

definition TryAcquire :: "string \<Rightarrow> string set \<Rightarrow> bool \<times> string set" where
  "TryAcquire volumeID locks =
     (if volumeID \<in> locks then (False, locks) else (True, insert volumeID locks))"

definition Release :: "string \<Rightarrow> string set \<Rightarrow> string set" where
  "Release volumeID locks = locks - {volumeID}"

section \<open>Node service\<close>

text \<open>
  What \<open>GCENodeServer\<close> calls and does not define: the mounter
  (\<open>mount.SafeFormatAndMount\<close>, with \<open>mount.CleanupMountPoint\<close> and \<open>resizefs\<close> on top of it),
  its \<open>Exec\<close>, the device utilities, \<open>os.Remove\<close>, and two functions of this repository
  that are not under src/ and that the spec does not describe
  (\<open>validateVolumeCapability\<close>, \<open>common.GetDeviceName\<close>). They are the fields of the server,
  over the state \<open>'m\<close> of the machine. \<open>IsLikelyNotMountPoint\<close> returns its pair as it
  is: the caller reads \<open>notMnt\<close> also beside an error.
\<close>

record 'm GCENodeServer =
  validateVolumeCapability :: "VolumeCapability \<Rightarrow> error option"
  GetDeviceName :: "VolumeKey \<Rightarrow> error + string"
  GetDiskByIdPaths :: "string \<Rightarrow> string \<Rightarrow> string list"
  VerifyDevicePath :: "string list \<Rightarrow> 'm \<Rightarrow> (error + string) \<times> 'm"
  IsLikelyNotMountPoint :: "string \<Rightarrow> 'm \<Rightarrow> (bool \<times> error option) \<times> 'm"
  MakeDir :: "string \<Rightarrow> 'm \<Rightarrow> error option \<times> 'm"
  MakeFile :: "string \<Rightarrow> 'm \<Rightarrow> error option \<times> 'm"
  Remove :: "string \<Rightarrow> 'm \<Rightarrow> error option \<times> 'm"
  Mount :: "string \<Rightarrow> string \<Rightarrow> string \<Rightarrow> string list \<Rightarrow> 'm \<Rightarrow> error option \<times> 'm"
  Unmount :: "string \<Rightarrow> 'm \<Rightarrow> error option \<times> 'm"
  FormatAndMount :: "string \<Rightarrow> string \<Rightarrow> string \<Rightarrow> string list \<Rightarrow> 'm \<Rightarrow> error option \<times> 'm"
  CleanupMountPoint :: "string \<Rightarrow> 'm \<Rightarrow> error option \<times> 'm"
  Resize :: "string \<Rightarrow> string \<Rightarrow> 'm \<Rightarrow> error option \<times> 'm"
  Run :: "string \<Rightarrow> string list \<Rightarrow> 'm \<Rightarrow> (error + string) \<times> 'm"

text \<open>
  The state a node call runs in: the identifiers held in \<open>ns.volumeLocks\<close> and the machine.
\<close>

record 'm NodeState =
  volumeLocks :: "string set"
  machine :: 'm

definition getDevicePath ::
  "'m GCENodeServer \<Rightarrow> string \<Rightarrow> string \<Rightarrow> 'm \<Rightarrow> (error + string) \<times> 'm" where
  "getDevicePath ns volumeID partition' m =
     (case VolumeIDToKey volumeID of
        Inl err \<Rightarrow> (Inl err, m)
      | Inr volumeKey \<Rightarrow>
          (case GetDeviceName ns volumeKey of
             Inl err \<Rightarrow> (Inl (Errorf ''error getting device name''), m)
           | Inr deviceName \<Rightarrow>
               (let devicePaths = GetDiskByIdPaths ns deviceName partition'
                in case VerifyDevicePath ns devicePaths m of
                     (Inl err, m1) \<Rightarrow> (Inl (Errorf ''error verifying GCE PD is attached''), m1)
                   | (Inr devicePath, m1) \<Rightarrow>
                       if devicePath = []
                       then (Inl (Errorf
                              ''unable to find device path out of attempted paths''), m1)
                       else (Inr devicePath, m1))))"

subsection \<open>NodeExpandVolume\<close>

text \<open>
  \<open>strings.TrimSpace\<close> and \<open>strconv.ParseInt(s, 10, 64)\<close> on ASCII text: white space is
  tab, line feed, vertical tab, form feed, carriage return and space; a number is an
  optional sign and at least one decimal digit, within the range of \<open>int64\<close>.
\<close>

definition isSpace :: "char \<Rightarrow> bool" where
  "isSpace c = (c \<in> set [CHR 0x09, CHR 0x0A, CHR 0x0B, CHR 0x0C, CHR 0x0D, CHR 0x20])"

definition TrimSpace :: "string \<Rightarrow> string" where
  "TrimSpace s = rev (dropWhile isSpace (rev (dropWhile isSpace s)))"

definition digitVal :: "char \<Rightarrow> int option" where
  "digitVal c = map_of (zip ''0123456789'' [0, 1, 2, 3, 4, 5, 6, 7, 8, 9]) c"

fun parseDigits :: "string \<Rightarrow> int \<Rightarrow> int option" where
  "parseDigits [] acc = Some acc"
| "parseDigits (c # cs) acc =
     (case digitVal c of None \<Rightarrow> None | Some d \<Rightarrow> parseDigits cs (10 * acc + d))"

definition ParseInt :: "string \<Rightarrow> error + int" where
  "ParseInt s =
     (let neg = (s \<noteq> [] \<and> hd s = CHR ''-'');
          digits = (if s \<noteq> [] \<and> (hd s = CHR ''-'' \<or> hd s = CHR ''+'') then tl s else s)
      in if digits = [] then Inl (Errorf ''invalid syntax'')
         else (case parseDigits digits 0 of
                 None \<Rightarrow> Inl (Errorf ''invalid syntax'')
               | Some n \<Rightarrow>
                   (let v = (if neg then - n else n)
                    in if v < - (2 ^ 63) \<or> 2 ^ 63 - 1 < v
                       then Inl (Errorf ''value out of range'')
                       else Inr v)))"

definition getBlockSizeBytes :: "'m GCENodeServer \<Rightarrow> string \<Rightarrow> 'm \<Rightarrow> (error + int) \<times> 'm" where
  "getBlockSizeBytes ns devicePath m =
     (case Run ns ''blockdev'' [''--getsize64'', devicePath] m of
        (Inl err, m1) \<Rightarrow> (Inl (Errorf ''error when getting size of block volume''), m1)
      | (Inr output, m1) \<Rightarrow>
          (let strOut = TrimSpace output
           in case ParseInt strOut of
                Inl err \<Rightarrow> (Inl (Errorf ''failed to parse size into int a size''), m1)
              | Inr gotSizeBytes \<Rightarrow> (Inr gotSizeBytes, m1)))"

record NodeExpandVolumeRequest =
  nev_VolumeId :: string
  nev_VolumePath :: string
  nev_CapacityRange :: "CapacityRange option"

record NodeExpandVolumeResponse =
  CapacityBytes :: int

definition NodeExpandVolume ::
  "'m GCENodeServer \<Rightarrow> NodeExpandVolumeRequest \<Rightarrow> 'm
     \<Rightarrow> (error + NodeExpandVolumeResponse) \<times> 'm" where
  "NodeExpandVolume ns req m =
     (let volumeID = nev_VolumeId req
      in if length volumeID = 0
         then (Inl (Status InvalidArgument
                 ''ControllerExpandVolume volume ID must be provided''), m)
         else
           (case getRequestCapacity (nev_CapacityRange req) of
              Inl err \<Rightarrow>
                (Inl (Status InvalidArgument
                   ''ControllerExpandVolume capacity range is invalid''), m)
            | Inr reqBytes \<Rightarrow>
                (let volumePath = nev_VolumePath req
                 in if length volumePath = 0
                    then (Inl (Status InvalidArgument
                            ''ControllerExpandVolume volume path must be provided''), m)
                    else
                      (case VolumeIDToKey volumeID of
                         Inl err \<Rightarrow>
                           (Inl (Status InvalidArgument
                              ''ControllerExpandVolume Volume ID is invalid''), m)
                       | Inr volKey \<Rightarrow>
                           (case getDevicePath ns volumeID [] m of
                              (Inl err, m1) \<Rightarrow>
                                (Inl (Status Internal
                                   ''ControllerExpandVolume error when getting device path''), m1)
                            | (Inr devicePath, m1) \<Rightarrow>
                                (case Resize ns devicePath volumePath m1 of
                                   (Some err, m2) \<Rightarrow>
                                     (Inl (Status Internal
                                        ''ControllerExpandVolume error when resizing volume''), m2)
                                 | (None, m2) \<Rightarrow>
                                     (case getBlockSizeBytes ns devicePath m2 of
                                        (Inl err, m3) \<Rightarrow>
                                          (Inl (Status Internal
                                             ''ControllerExpandVolume error when getting size of block volume''), m3)
                                      | (Inr gotBlockSizeBytes, m3) \<Rightarrow>
                                          if gotBlockSizeBytes < reqBytes
                                          then (Inl (Status Internal
                                                  ''ControllerExpandVolume resize requested but after resize volume was smaller''), m3)
                                          else (Inr \<lparr>CapacityBytes = reqBytes\<rparr>, m3))))))))"

subsection \<open>The operations that take the volume lock\<close>

text \<open>
  Modelled from the spec: \<open>common.VolumeOperationAlreadyExistsFmt\<close> is not under src/; the
  message of a lock failure names the contended volume identifier. \<open>NodeUnstageVolume\<close>
  formats the same sentence itself.
\<close>

definition VolumeOperationAlreadyExists :: "string \<Rightarrow> string" where
  "VolumeOperationAlreadyExists volumeID =
     ''An operation with the given Volume ID '' @ volumeID @ '' already exists''"

record NodePublishVolumeRequest =
  npv_VolumeId :: string
  npv_StagingTargetPath :: string
  npv_TargetPath :: string
  npv_VolumeCapability :: "VolumeCapability option"
  npv_Readonly :: bool
  npv_VolumeContext :: "string \<rightharpoonup> string"

text \<open>
  \<open>NodePublishVolume\<close> from its call of \<open>Mount\<close> to its end: on a failed mount it looks
  for a partial mount and cleans it up, and reports \<open>Internal\<close> in every case.
\<close>

definition NodePublishVolume_mount ::
  "'m GCENodeServer \<Rightarrow> string \<Rightarrow> string \<Rightarrow> string \<Rightarrow> string list \<Rightarrow> 'm
     \<Rightarrow> (error + unit) \<times> 'm" where
  "NodePublishVolume_mount ns sourcePath targetPath fstype options m =
     (case Mount ns sourcePath targetPath fstype options m of
        (None, m1) \<Rightarrow> (Inr (), m1)
      | (Some err, m1) \<Rightarrow>
          (case IsLikelyNotMountPoint ns targetPath m1 of
             ((notMnt, Some mntErr), m2) \<Rightarrow>
               (Inl (Status Internal
                  ''NodePublishVolume failed to check whether target path is a mount point''), m2)
           | ((notMnt, None), m2) \<Rightarrow>
               if \<not> notMnt then
                 (case Unmount ns targetPath m2 of
                    (Some mntErr, m3) \<Rightarrow>
                      (Inl (Status Internal
                         ''NodePublishVolume failed to unmount target path''), m3)
                  | (None, m3) \<Rightarrow>
                      (case IsLikelyNotMountPoint ns targetPath m3 of
                         ((notMnt, Some mntErr), m4) \<Rightarrow>
                           (Inl (Status Internal
                              ''NodePublishVolume failed to check whether target path is a mount point''), m4)
                       | ((notMnt, None), m4) \<Rightarrow>
                           if \<not> notMnt
                           then (Inl (Status Internal
                                   ''NodePublishVolume something is wrong with mounting''), m4)
                           else (case Remove ns targetPath m4 of
                                   (removed, m5) \<Rightarrow>
                                     (Inl (Status Internal
                                        ''NodePublishVolume mount of disk failed''), m5))))
               else (case Remove ns targetPath m2 of
                       (removed, m3) \<Rightarrow>
                         (Inl (Status Internal ''NodePublishVolume mount of disk failed''), m3))))"

text \<open>\<open>NodePublishVolume\<close> after \<open>defer ns.volumeLocks.Release(volumeID)\<close>.\<close>

definition NodePublishVolume_locked ::
  "'m GCENodeServer \<Rightarrow> NodePublishVolumeRequest \<Rightarrow> VolumeCapability \<Rightarrow> 'm
     \<Rightarrow> (error + unit) \<times> 'm" where
  "NodePublishVolume_locked ns req volumeCapability m =
     (let targetPath = npv_TargetPath req;
          stagingTargetPath = npv_StagingTargetPath req;
          readOnly = npv_Readonly req;
          volumeID = npv_VolumeId req
      in case validateVolumeCapability ns volumeCapability of
           Some err \<Rightarrow> (Inl (Status InvalidArgument ''VolumeCapability is invalid''), m)
         | None \<Rightarrow>
             (case IsLikelyNotMountPoint ns targetPath m of
                ((notMnt, err), m1) \<Rightarrow>
                  if (case err of None \<Rightarrow> False | Some e \<Rightarrow> \<not> IsNotExist e)
                  then (Inl (Status Internal ''cannot validate mount point''), m1)
                  else if \<not> notMnt then (Inr (), m1)
                  else
                    (let options = [''bind''] @ (if readOnly then [''ro''] else [])
                     in case GetMount volumeCapability of
                          Some mnt \<Rightarrow>
                            (let fstype = (if FsType mnt \<noteq> [] then FsType mnt else ''ext4'');
                                 options = options @ MountFlags mnt;
                                 sourcePath = stagingTargetPath
                             in case MakeDir ns targetPath m1 of
                                  (Some err, m2) \<Rightarrow>
                                    (Inl (Status Internal ''mkdir failed on disk''), m2)
                                | (None, m2) \<Rightarrow>
                                    NodePublishVolume_mount ns sourcePath targetPath fstype
                                      options m2)
                        | None \<Rightarrow>
                            (case GetBlock volumeCapability of
                               Some blk \<Rightarrow>
                                 (let partition' =
                                        (case npv_VolumeContext req VolumeAttributePartition of
                                           Some part \<Rightarrow> part
                                         | None \<Rightarrow> [])
                                  in case getDevicePath ns volumeID partition' m1 of
                                       (Inl err, m2) \<Rightarrow>
                                         (Inl (Status Internal
                                            ''Error when getting device path''), m2)
                                     | (Inr sourcePath, m2) \<Rightarrow>
                                         (case MakeFile ns targetPath m2 of
                                            (Some err, m3) \<Rightarrow>
                                              (case Remove ns targetPath m3 of
                                                 (Some removeErr, m4) \<Rightarrow>
                                                   (Inl (Status Internal
                                                      ''Error removing block file at target path''), m4)
                                               | (None, m4) \<Rightarrow>
                                                   (Inl (Status Internal
                                                      ''Failed to create block file at target path''), m4))
                                          | (None, m3) \<Rightarrow>
                                              NodePublishVolume_mount ns sourcePath targetPath []
                                                options m3))
                             | None \<Rightarrow>
                                 (Inl (Status InvalidArgument
                                    ''NodePublishVolume volume capability must specify either mount or block mode''), m1)))))"

definition NodePublishVolume ::
  "'m GCENodeServer \<Rightarrow> NodePublishVolumeRequest \<Rightarrow> 'm NodeState
     \<Rightarrow> (error + unit) \<times> 'm NodeState" where
  "NodePublishVolume ns req st =
     (let targetPath = npv_TargetPath req;
          stagingTargetPath = npv_StagingTargetPath req;
          volumeID = npv_VolumeId req
      in if length volumeID = 0
         then (Inl (Status InvalidArgument ''NodePublishVolume Volume ID must be provided''), st)
         else if length stagingTargetPath = 0
         then (Inl (Status InvalidArgument
                 ''NodePublishVolume Staging Target Path must be provided''), st)
         else if length targetPath = 0
         then (Inl (Status InvalidArgument
                 ''NodePublishVolume Target Path must be provided''), st)
         else
           (case npv_VolumeCapability req of
              None \<Rightarrow>
                (Inl (Status InvalidArgument
                   ''NodePublishVolume Volume Capability must be provided''), st)
            | Some volumeCapability \<Rightarrow>
                (case TryAcquire volumeID (volumeLocks st) of
                   (acquired, locks) \<Rightarrow>
                     if \<not> acquired
                     then (Inl (Status Aborted (VolumeOperationAlreadyExists volumeID)),
                           st\<lparr>volumeLocks := locks\<rparr>)
                     else
                       (case NodePublishVolume_locked ns req volumeCapability (machine st) of
                          (result, m) \<Rightarrow>
                            (result,
                             \<lparr>volumeLocks = Release volumeID locks, machine = m\<rparr>)))))"

record NodeUnpublishVolumeRequest =
  nupv_VolumeId :: string
  nupv_TargetPath :: string

definition NodeUnpublishVolume_locked ::
  "'m GCENodeServer \<Rightarrow> NodeUnpublishVolumeRequest \<Rightarrow> 'm \<Rightarrow> (error + unit) \<times> 'm" where
  "NodeUnpublishVolume_locked ns req m =
     (case CleanupMountPoint ns (nupv_TargetPath req) m of
        (Some err, m1) \<Rightarrow> (Inl (Status Internal ''Unmount failed''), m1)
      | (None, m1) \<Rightarrow> (Inr (), m1))"

definition NodeUnpublishVolume ::
  "'m GCENodeServer \<Rightarrow> NodeUnpublishVolumeRequest \<Rightarrow> 'm NodeState
     \<Rightarrow> (error + unit) \<times> 'm NodeState" where
  "NodeUnpublishVolume ns req st =
     (let targetPath = nupv_TargetPath req;
          volumeID = nupv_VolumeId req
      in if length volumeID = 0
         then (Inl (Status InvalidArgument
                 ''NodeUnpublishVolume Volume ID must be provided''), st)
         else if length targetPath = 0
         then (Inl (Status InvalidArgument
                 ''NodeUnpublishVolume Target Path must be provided''), st)
         else
           (case TryAcquire volumeID (volumeLocks st) of
              (acquired, locks) \<Rightarrow>
                if \<not> acquired
                then (Inl (Status Aborted (VolumeOperationAlreadyExists volumeID)),
                      st\<lparr>volumeLocks := locks\<rparr>)
                else
                  (case NodeUnpublishVolume_locked ns req (machine st) of
                     (result, m) \<Rightarrow>
                       (result, \<lparr>volumeLocks = Release volumeID locks, machine = m\<rparr>))))"

record NodeStageVolumeRequest =
  nsv_VolumeId :: string
  nsv_StagingTargetPath :: string
  nsv_VolumeCapability :: "VolumeCapability option"
  nsv_VolumeContext :: "string \<rightharpoonup> string"

text \<open>
  \<open>NodeStageVolume\<close> from "Part 3" to its end: a mount capability formats and mounts the
  device, a block capability does nothing, and a capability with neither falls through
  to the mount with the defaults.
\<close>

definition NodeStageVolume_mount ::
  "'m GCENodeServer \<Rightarrow> VolumeCapability \<Rightarrow> string \<Rightarrow> string \<Rightarrow> 'm \<Rightarrow> (error + unit) \<times> 'm" where
  "NodeStageVolume_mount ns volumeCapability devicePath stagingTargetPath m =
     (let formatAndMount = (\<lambda>fstype options.
            case FormatAndMount ns devicePath stagingTargetPath fstype options m of
              (Some err, m1) \<Rightarrow> (Inl (Status Internal ''Failed to format and mount device''), m1)
            | (None, m1) \<Rightarrow> (Inr (), m1))
      in case GetMount volumeCapability of
           Some mnt \<Rightarrow>
             formatAndMount (if FsType mnt \<noteq> [] then FsType mnt else ''ext4'')
               ([] @ MountFlags mnt)
         | None \<Rightarrow>
             (case GetBlock volumeCapability of
                Some blk \<Rightarrow> (Inr (), m)
              | None \<Rightarrow> formatAndMount ''ext4'' []))"

text \<open>\<open>NodeStageVolume\<close> after \<open>defer ns.volumeLocks.Release(volumeID)\<close>.\<close>

definition NodeStageVolume_locked ::
  "'m GCENodeServer \<Rightarrow> NodeStageVolumeRequest \<Rightarrow> VolumeCapability \<Rightarrow> 'm
     \<Rightarrow> (error + unit) \<times> 'm" where
  "NodeStageVolume_locked ns req volumeCapability m =
     (let volumeID = nsv_VolumeId req;
          stagingTargetPath = nsv_StagingTargetPath req
      in case validateVolumeCapability ns volumeCapability of
           Some err \<Rightarrow> (Inl (Status InvalidArgument ''VolumeCapability is invalid''), m)
         | None \<Rightarrow>
             (case VolumeIDToKey volumeID of
                Inl err \<Rightarrow>
                  (Inl (Status InvalidArgument ''NodeStageVolume Volume ID is invalid''), m)
              | Inr volumeKey \<Rightarrow>
                  (let partition' =
                         (case nsv_VolumeContext req VolumeAttributePartition of
                            Some part \<Rightarrow> part
                          | None \<Rightarrow> [])
                   in case getDevicePath ns volumeID partition' m of
                        (Inl err, m1) \<Rightarrow>
                          (Inl (Status Internal ''Error when getting device path''), m1)
                      | (Inr devicePath, m1) \<Rightarrow>
                          (case IsLikelyNotMountPoint ns stagingTargetPath m1 of
                             ((notMnt, Some err), m2) \<Rightarrow>
                               if IsNotExist err then
                                 (case MakeDir ns stagingTargetPath m2 of
                                    (Some err, m3) \<Rightarrow>
                                      (Inl (Status Internal ''Failed to create directory''), m3)
                                  | (None, m3) \<Rightarrow>
                                      NodeStageVolume_mount ns volumeCapability devicePath
                                        stagingTargetPath m3)
                               else (Inl (Status Internal
                                       ''Unknown error when checking mount point''), m2)
                           | ((notMnt, None), m2) \<Rightarrow>
                               if \<not> notMnt then (Inr (), m2)
                               else NodeStageVolume_mount ns volumeCapability devicePath
                                      stagingTargetPath m2))))"

definition NodeStageVolume ::
  "'m GCENodeServer \<Rightarrow> NodeStageVolumeRequest \<Rightarrow> 'm NodeState
     \<Rightarrow> (error + unit) \<times> 'm NodeState" where
  "NodeStageVolume ns req st =
     (let volumeID = nsv_VolumeId req;
          stagingTargetPath = nsv_StagingTargetPath req
      in if length volumeID = 0
         then (Inl (Status InvalidArgument ''NodeStageVolume Volume ID must be provided''), st)
         else if length stagingTargetPath = 0
         then (Inl (Status InvalidArgument
                 ''NodeStageVolume Staging Target Path must be provided''), st)
         else
           (case nsv_VolumeCapability req of
              None \<Rightarrow>
                (Inl (Status InvalidArgument
                   ''NodeStageVolume Volume Capability must be provided''), st)
            | Some volumeCapability \<Rightarrow>
                (case TryAcquire volumeID (volumeLocks st) of
                   (acquired, locks) \<Rightarrow>
                     if \<not> acquired
                     then (Inl (Status Aborted (VolumeOperationAlreadyExists volumeID)),
                           st\<lparr>volumeLocks := locks\<rparr>)
                     else
                       (case NodeStageVolume_locked ns req volumeCapability (machine st) of
                          (result, m) \<Rightarrow>
                            (result,
                             \<lparr>volumeLocks = Release volumeID locks, machine = m\<rparr>)))))"

record NodeUnstageVolumeRequest =
  nusv_VolumeId :: string
  nusv_StagingTargetPath :: string

definition NodeUnstageVolume_locked ::
  "'m GCENodeServer \<Rightarrow> NodeUnstageVolumeRequest \<Rightarrow> 'm \<Rightarrow> (error + unit) \<times> 'm" where
  "NodeUnstageVolume_locked ns req m =
     (case CleanupMountPoint ns (nusv_StagingTargetPath req) m of
        (Some err, m1) \<Rightarrow> (Inl (Status Internal ''NodeUnstageVolume failed to unmount at path''), m1)
      | (None, m1) \<Rightarrow> (Inr (), m1))"

definition NodeUnstageVolume ::
  "'m GCENodeServer \<Rightarrow> NodeUnstageVolumeRequest \<Rightarrow> 'm NodeState
     \<Rightarrow> (error + unit) \<times> 'm NodeState" where
  "NodeUnstageVolume ns req st =
     (let volumeID = nusv_VolumeId req;
          stagingTargetPath = nusv_StagingTargetPath req
      in if length volumeID = 0
         then (Inl (Status InvalidArgument
                 ''NodeUnstageVolume Volume ID must be provided''), st)
         else if length stagingTargetPath = 0
         then (Inl (Status InvalidArgument
                 ''NodeUnstageVolume Staging Target Path must be provided''), st)
         else
           (case TryAcquire volumeID (volumeLocks st) of
              (acquired, locks) \<Rightarrow>
                if \<not> acquired
                then (Inl (Status Aborted (VolumeOperationAlreadyExists volumeID)),
                      st\<lparr>volumeLocks := locks\<rparr>)
                else
                  (case NodeUnstageVolume_locked ns req (machine st) of
                     (result, m) \<Rightarrow>
                       (result, \<lparr>volumeLocks = Release volumeID locks, machine = m\<rparr>))))"

section \<open>In-memory collaborators\<close>

text \<open>
  Modelled from the spec: the implementations of \<open>gce.GCECompute\<close> and of the mounter are
  not under src/; the spec has them as external collaborators, the cloud disk client and
  the mount executor. The theorems below hold for every provider and every node machine.
  To run the operations at concrete inputs, this section gives one of each. The cloud
  holds disks by zone and name and instances with their attached disks, reports
  "alreadyExists", "notFound" and "resourceInUseByAnotherResource", and finds an existing
  disk compatible when its type and its size fit the request. \<open>racing\<close> are disks that a
  concurrent creator inserts between the driver's check and its own insert. The cloud
  records the insert and attach requests it receives.
\<close>

record CloudState =
  disks :: "((string \<times> string) \<times> Disk) list"
  racing :: "((string \<times> string) \<times> Disk) list"
  instances :: "((string \<times> string) \<times> Instance) list"
  insertRequests :: "Disk list"
  attachRequests :: "AttachedDisk list"

definition memGetDiskTypeURI :: "string \<Rightarrow> string \<Rightarrow> string" where
  "memGetDiskTypeURI zone diskType = ''zones/'' @ zone @ ''/diskTypes/'' @ diskType"

definition memGetAndValidateExistingDisk ::
  "string \<Rightarrow> string \<Rightarrow> string \<Rightarrow> int \<Rightarrow> int \<Rightarrow> CloudState \<Rightarrow> (error + bool) \<times> CloudState" where
  "memGetAndValidateExistingDisk zone name diskType reqBytes limBytes s =
     (case map_of (disks s) (zone, name) of
        None \<Rightarrow> (Inr False, s)
      | Some d \<Rightarrow>
          if Disk_Type d = memGetDiskTypeURI zone diskType
             \<and> (reqBytes \<le> 0 \<or> reqBytes \<le> Disk_SizeGb d * (1024 * 1024 * 1024))
             \<and> (limBytes \<le> 0 \<or> Disk_SizeGb d * (1024 * 1024 * 1024) \<le> limBytes)
          then (Inr True, s)
          else (Inl (Status AlreadyExists ''disk already exists with incompatible properties''), s))"

definition memInsertDisk ::
  "string \<Rightarrow> Disk \<Rightarrow> CloudState \<Rightarrow> (error + Operation) \<times> CloudState" where
  "memInsertDisk zone d s =
     (let s1 = s\<lparr>disks := racing s @ disks s, racing := [],
                  insertRequests := insertRequests s @ [d]\<rparr>
      in case map_of (disks s1) (zone, Disk_Name d) of
           Some d' \<Rightarrow> (Inl (GCEError ''alreadyExists''), s1)
         | None \<Rightarrow> (Inr ''insert'', s1\<lparr>disks := ((zone, Disk_Name d), d) # disks s1\<rparr>))"

definition memIsAttached :: "string \<Rightarrow> CloudState \<Rightarrow> bool" where
  "memIsAttached name s =
     list_ex (\<lambda>(key, i). list_ex (\<lambda>a. AttachedDisk_DeviceName a = name) (Instance_Disks i))
       (instances s)"

definition memDeleteDisk ::
  "string \<Rightarrow> string \<Rightarrow> CloudState \<Rightarrow> (error + Operation) \<times> CloudState" where
  "memDeleteDisk zone name s =
     (case map_of (disks s) (zone, name) of
        None \<Rightarrow> (Inl (GCEError ''notFound''), s)
      | Some d \<Rightarrow>
          if memIsAttached name s
          then (Inl (GCEError ''resourceInUseByAnotherResource''), s)
          else (Inr ''delete'', s\<lparr>disks := filter (\<lambda>(key, d'). key \<noteq> (zone, name)) (disks s)\<rparr>))"

definition memGetDiskOrError ::
  "string \<Rightarrow> string \<Rightarrow> CloudState \<Rightarrow> (error + Disk) \<times> CloudState" where
  "memGetDiskOrError zone name s =
     (case map_of (disks s) (zone, name) of
        None \<Rightarrow> (Inl (Status NotFound ''disk not found''), s)
      | Some d \<Rightarrow> (Inr d, s))"

definition memGetInstanceOrError ::
  "string \<Rightarrow> string \<Rightarrow> CloudState \<Rightarrow> (error + Instance) \<times> CloudState" where
  "memGetInstanceOrError zone name s =
     (case map_of (instances s) (zone, name) of
        None \<Rightarrow> (Inl (GCEError ''notFound''), s)
      | Some i \<Rightarrow> (Inr i, s))"

definition memAttachDisk ::
  "string \<Rightarrow> string \<Rightarrow> AttachedDisk \<Rightarrow> CloudState \<Rightarrow> (error + Operation) \<times> CloudState" where
  "memAttachDisk zone node a s =
     (case map_of (instances s) (zone, node) of
        None \<Rightarrow> (Inl (GCEError ''notFound''), s\<lparr>attachRequests := attachRequests s @ [a]\<rparr>)
      | Some i \<Rightarrow>
          (Inr ''attach'',
           s\<lparr>instances :=
               map (\<lambda>(key, i'). if key = (zone, node)
                                then (key, \<lparr>Instance_Disks = Instance_Disks i' @ [a]\<rparr>)
                                else (key, i')) (instances s),
             attachRequests := attachRequests s @ [a]\<rparr>))"

definition memCloud :: "string \<Rightarrow> CloudState GCECompute" where
  "memCloud zone =
     \<lparr>GetZone = zone,
      GetDiskTypeURI = memGetDiskTypeURI,
      GetDiskSourceURI = (\<lambda>d z. ''zones/'' @ z @ ''/disks/'' @ Disk_Name d),
      GetAndValidateExistingDisk = memGetAndValidateExistingDisk,
      InsertDisk = memInsertDisk,
      DeleteDisk = memDeleteDisk,
      WaitForOp = (\<lambda>op z s. (None, s)),
      GetDiskOrError = memGetDiskOrError,
      GetInstanceOrError = memGetInstanceOrError,
      AttachDisk = memAttachDisk,
      WaitForAttach = (\<lambda>z d n s. (None, s))\<rparr>"

definition emptyCloud :: CloudState where
  "emptyCloud = \<lparr>disks = [], racing = [], instances = [], insertRequests = [],
                  attachRequests = []\<rparr>"

text \<open>
  The node machine: its mount points, its directories and files, and for each block
  device what \<open>blockdev --getsize64\<close> prints for it. \<open>mountFails\<close> makes every mount fail.
\<close>

record Machine =
  mountPoints :: "string list"
  paths :: "string list"
  blockdev :: "(string \<times> string) list"
  mountFails :: bool

definition memIsLikelyNotMountPoint :: "string \<Rightarrow> Machine \<Rightarrow> (bool \<times> error option) \<times> Machine" where
  "memIsLikelyNotMountPoint p m =
     (if p \<in> set (mountPoints m) then ((False, None), m)
      else if p \<in> set (paths m) then ((True, None), m)
      else ((True, Some (NotExist p)), m))"

definition memMount ::
  "string \<Rightarrow> string \<Rightarrow> string \<Rightarrow> string list \<Rightarrow> Machine \<Rightarrow> error option \<times> Machine" where
  "memMount src target fstype options m =
     (if mountFails m then (Some (Errorf ''mount failed''), m)
      else (None, m\<lparr>mountPoints := target # mountPoints m\<rparr>))"

definition memVerifyDevicePath :: "string list \<Rightarrow> Machine \<Rightarrow> (error + string) \<times> Machine" where
  "memVerifyDevicePath devicePaths m =
     (case filter (\<lambda>p. map_of (blockdev m) p \<noteq> None) devicePaths of
        [] \<Rightarrow> (Inr [], m)
      | p # ps \<Rightarrow> (Inr p, m))"

definition memRun :: "string \<Rightarrow> string list \<Rightarrow> Machine \<Rightarrow> (error + string) \<times> Machine" where
  "memRun cmd args m =
     (case map_of (blockdev m) (last args) of
        None \<Rightarrow> (Inl (Errorf ''no such device''), m)
      | Some out \<Rightarrow> (Inr out, m))"

definition memNode :: "Machine GCENodeServer" where
  "memNode =
     \<lparr>validateVolumeCapability = (\<lambda>c. None),
      GetDeviceName = (\<lambda>key. Inr (VolumeKey_Name key)),
      GetDiskByIdPaths = (\<lambda>deviceName part. [''/dev/disk/by-id/google-'' @ deviceName]),
      VerifyDevicePath = memVerifyDevicePath,
      IsLikelyNotMountPoint = memIsLikelyNotMountPoint,
      MakeDir = (\<lambda>p m. (None, m\<lparr>paths := p # paths m\<rparr>)),
      MakeFile = (\<lambda>p m. (None, m\<lparr>paths := p # paths m\<rparr>)),
      Remove = (\<lambda>p m. (None, m\<lparr>paths := removeAll p (paths m)\<rparr>)),
      Mount = memMount,
      Unmount = (\<lambda>p m. (None, m\<lparr>mountPoints := removeAll p (mountPoints m)\<rparr>)),
      FormatAndMount = (\<lambda>dev target fstype options. memMount dev target fstype options),
      CleanupMountPoint =
        (\<lambda>p m. (None, m\<lparr>mountPoints := removeAll p (mountPoints m),
                          paths := removeAll p (paths m)\<rparr>)),
      Resize = (\<lambda>dev p m. (None, m)),
      Run = memRun\<rparr>"

text \<open>
  A request for a disk \<open>d1\<close> of a given size, the disk of 20 GiB the driver creates for
  it in \<open>zone-a\<close>, the volume it answers with, the cloud holding that disk, and a cloud in
  which a concurrent creator is about to insert it.
\<close>

definition d1Request :: "int \<Rightarrow> CreateVolumeRequest" where
  "d1Request requiredBytes =
     \<lparr>cv_Name = ''d1'',
      cv_VolumeCapabilities = [\<lparr>AccessType = VolumeCapability_Block, AccessMode = 1\<rparr>],
      cv_CapacityRange = Some \<lparr>RequiredBytes = requiredBytes, LimitBytes = 0\<rparr>,
      cv_Parameters = [],
      cv_AccessibilityRequirements = None\<rparr>"

definition d1Disk :: Disk where
  "d1Disk =
     \<lparr>Disk_Name = ''d1'', Disk_SizeGb = 20,
      Disk_Description = ''Disk created by GCE-PD CSI Driver'',
      Disk_Type = ''zones/zone-a/diskTypes/pd-standard'', Disk_Kind = []\<rparr>"

definition d1Volume :: Volume where
  "d1Volume =
     \<lparr>Volume_CapacityBytes = 21474836480, Volume_Id = ''zone-a/d1'',
      Volume_AccessibleTopology = [\<lparr>Segments = Some [(TopologyKeyZone, ''zone-a'')]\<rparr>]\<rparr>"

definition cloudWithD1 :: CloudState where
  "cloudWithD1 = emptyCloud\<lparr>disks := [((''zone-a'', ''d1''), d1Disk)], insertRequests := [d1Disk]\<rparr>"

definition cloudWithRace :: CloudState where
  "cloudWithRace = emptyCloud\<lparr>racing := [((''zone-a'', ''d1''), d1Disk)]\<rparr>"

text \<open>
  A node \<open>n1\<close> in the same zone, the attachment of \<open>d1\<close> to it in a given mode, the
  cloud before and after the read-write attachment, and the request to publish \<open>d1\<close> on
  \<open>n1\<close>.
\<close>

definition d1Attachment :: "string \<Rightarrow> AttachedDisk" where
  "d1Attachment mode =
     \<lparr>AttachedDisk_DeviceName = ''d1'', AttachedDisk_Kind = [], AttachedDisk_Mode = mode,
      AttachedDisk_Source = ''zones/zone-a/disks/d1'', AttachedDisk_Type = ''PERSISTENT''\<rparr>"

definition cloudWithNode :: CloudState where
  "cloudWithNode = cloudWithD1\<lparr>instances := [((''zone-a'', ''n1''), \<lparr>Instance_Disks = []\<rparr>)]\<rparr>"

definition cloudWithD1Attached :: CloudState where
  "cloudWithD1Attached =
     cloudWithD1\<lparr>instances :=
                   [((''zone-a'', ''n1''), \<lparr>Instance_Disks = [d1Attachment ''READ_WRITE'']\<rparr>)],
                 attachRequests := [d1Attachment ''READ_WRITE'']\<rparr>"

definition publishD1 :: "bool \<Rightarrow> ControllerPublishVolumeRequest" where
  "publishD1 readOnly =
     \<lparr>cpv_VolumeId = ''zone-a/d1'', cpv_NodeId = ''n1'',
      cpv_VolumeCapability = Some \<lparr>AccessType = VolumeCapability_Block, AccessMode = 1\<rparr>,
      cpv_Readonly = readOnly\<rparr>"

text \<open>
  A machine on which the device of \<open>d1\<close> has 10 GiB, and the request to expand \<open>d1\<close>.
\<close>

definition machineWithD1 :: Machine where
  "machineWithD1 =
     \<lparr>mountPoints = [], paths = [],
      blockdev = [(''/dev/disk/by-id/google-d1'', ''10737418240\<newline>'')],
      mountFails = False\<rparr>"

definition expandD1 :: "CapacityRange option \<Rightarrow> NodeExpandVolumeRequest" where
  "expandD1 capRange =
     \<lparr>nev_VolumeId = ''zone-a/d1'', nev_VolumePath = ''/mnt/d1'', nev_CapacityRange = capRange\<rparr>"

text \<open>
  The requests to stage \<open>d1\<close> and to publish it to a workload, with a mount capability.
\<close>

definition mountCapability :: VolumeCapability where
  "mountCapability =
     \<lparr>AccessType = VolumeCapability_Mount \<lparr>FsType = [], MountFlags = []\<rparr>, AccessMode = 1\<rparr>"

definition stageD1 :: NodeStageVolumeRequest where
  "stageD1 =
     \<lparr>nsv_VolumeId = ''zone-a/d1'', nsv_StagingTargetPath = ''/staging/d1'',
      nsv_VolumeCapability = Some mountCapability, nsv_VolumeContext = Map.empty\<rparr>"

definition nodePublishD1 :: NodePublishVolumeRequest where
  "nodePublishD1 =
     \<lparr>npv_VolumeId = ''zone-a/d1'', npv_StagingTargetPath = ''/staging/d1'',
      npv_TargetPath = ''/pods/p1/d1'', npv_VolumeCapability = Some mountCapability,
      npv_Readonly = False, npv_VolumeContext = Map.empty\<rparr>"

section \<open>Theorems: capacity resolution\<close>

lemmas capacity_defs =
  getRequestCapacity_def GetRequiredBytes_def GetLimitBytes_def MinimumVolumeSizeInBytes_def

lemma getRequestCapacity_bounds:
  "getRequestCapacity capRange = Inr capBytes \<Longrightarrow>
     5368709120 \<le> capBytes \<and> (0 < GetLimitBytes capRange \<longrightarrow> capBytes \<le> GetLimitBytes capRange)"
  by (auto simp: capacity_defs Let_def split: option.splits if_splits)

lemma getRequestCapacity_value:
  "\<not> (0 < LimitBytes c \<and> 0 < RequiredBytes c \<and> LimitBytes c < RequiredBytes c) \<Longrightarrow>
   \<not> (0 < LimitBytes c \<and> LimitBytes c < 5368709120) \<Longrightarrow>
   getRequestCapacity (Some c) =
     Inr (max 5368709120 (if 0 < RequiredBytes c then RequiredBytes c else 5368709120))"
  by (auto simp: capacity_defs Let_def)

lemma getRequestCapacity_fails:
  "(0 < LimitBytes c \<and> 0 < RequiredBytes c \<and> LimitBytes c < RequiredBytes c)
     \<or> (0 < LimitBytes c \<and> LimitBytes c < 5368709120) \<Longrightarrow>
   \<exists>e. getRequestCapacity (Some c) = Inl e"
  by (auto simp: capacity_defs Let_def)

lemma CreateVolume_capacity_invalid:
  "getRequestCapacity (cv_CapacityRange req) = Inl e \<Longrightarrow>
   \<exists>msg. CreateVolume gceCS seed req s = (Inl (Status InvalidArgument msg), s)"
  by (simp add: CreateVolume_def Let_def)

lemma NodeExpandVolume_capacity_invalid:
  "getRequestCapacity (nev_CapacityRange req) = Inl e \<Longrightarrow>
   \<exists>msg. NodeExpandVolume ns req m = (Inl (Status InvalidArgument msg), m)"
  by (simp add: NodeExpandVolume_def Let_def)

text \<open>
  Claim C2. Capacity resolution. A nil range resolves to 5 GiB (5368709120 bytes). For a
  range \<open>c\<close>, a field is set when it is positive. If limit and required are both set and
  the limit is below the required size, \<open>getRequestCapacity\<close> fails; if the limit is set
  and below 5 GiB, it fails; in every other case it returns the required size if set and
  else the minimum, raised to 5 GiB. So a resolved capacity is at least 5 GiB and at most
  any set limit. Both callers, \<open>CreateVolume\<close> and \<open>NodeExpandVolume\<close>, turn the failure
  into \<open>InvalidArgument\<close> and leave the cloud and the machine as they were.
\<close>

theorem capacity_resolution:
  "getRequestCapacity None = Inr 5368709120
   \<and> (0 < LimitBytes c \<and> 0 < RequiredBytes c \<and> LimitBytes c < RequiredBytes c
        \<longrightarrow> (\<exists>e. getRequestCapacity (Some c) = Inl e))
   \<and> (0 < LimitBytes c \<and> LimitBytes c < 5368709120
        \<longrightarrow> (\<exists>e. getRequestCapacity (Some c) = Inl e))
   \<and> (\<not> (0 < LimitBytes c \<and> 0 < RequiredBytes c \<and> LimitBytes c < RequiredBytes c)
        \<and> \<not> (0 < LimitBytes c \<and> LimitBytes c < 5368709120)
        \<longrightarrow> getRequestCapacity (Some c) =
              Inr (max 5368709120 (if 0 < RequiredBytes c then RequiredBytes c else 5368709120)))
   \<and> (\<forall>capBytes. getRequestCapacity capRange = Inr capBytes
        \<longrightarrow> 5368709120 \<le> capBytes
            \<and> (0 < GetLimitBytes capRange \<longrightarrow> capBytes \<le> GetLimitBytes capRange))
   \<and> (\<forall>e. getRequestCapacity (cv_CapacityRange req) = Inl e
        \<longrightarrow> (\<exists>msg. CreateVolume gceCS seed req s = (Inl (Status InvalidArgument msg), s)))
   \<and> (\<forall>e. getRequestCapacity (nev_CapacityRange ereq) = Inl e
        \<longrightarrow> (\<exists>msg. NodeExpandVolume ns ereq m = (Inl (Status InvalidArgument msg), m)))"
proof -
  have nil: "getRequestCapacity None = Inr 5368709120"
    by (simp add: capacity_defs)
  show ?thesis
    using nil getRequestCapacity_fails [of c] getRequestCapacity_value [of c]
      getRequestCapacity_bounds [of capRange]
      CreateVolume_capacity_invalid [of req _ gceCS seed s]
      NodeExpandVolume_capacity_invalid [of ereq _ ns m]
    by blast
qed

theorem capacity_resolution_witness:
  "getRequestCapacity None = Inr 5368709120
   \<and> getRequestCapacity (Some \<lparr>RequiredBytes = 1073741824, LimitBytes = 0\<rparr>) = Inr 5368709120
   \<and> getRequestCapacity (Some \<lparr>RequiredBytes = 21474836480, LimitBytes = 32212254720\<rparr>)
       = Inr 21474836480
   \<and> (\<exists>e. getRequestCapacity (Some \<lparr>RequiredBytes = 0, LimitBytes = 1073741824\<rparr>) = Inl e)
   \<and> (\<exists>e. getRequestCapacity (Some \<lparr>RequiredBytes = 10737418240, LimitBytes = 5368709120\<rparr>)
           = Inl e)
   \<and> (\<exists>msg. CreateVolume (memCloud ''zone-a'') 0
         \<lparr>cv_Name = ''d1'',
          cv_VolumeCapabilities = [\<lparr>AccessType = VolumeCapability_Block, AccessMode = 1\<rparr>],
          cv_CapacityRange = Some \<lparr>RequiredBytes = 10737418240, LimitBytes = 5368709120\<rparr>,
          cv_Parameters = [], cv_AccessibilityRequirements = None\<rparr> emptyCloud
        = (Inl (Status InvalidArgument msg), emptyCloud))
   \<and> (\<exists>msg. NodeExpandVolume memNode
         \<lparr>nev_VolumeId = ''zone-a/d1'', nev_VolumePath = ''/mnt/d1'',
          nev_CapacityRange = Some \<lparr>RequiredBytes = 10737418240, LimitBytes = 5368709120\<rparr>\<rparr>
         \<lparr>mountPoints = [], paths = [], blockdev = [], mountFails = False\<rparr>
        = (Inl (Status InvalidArgument msg),
           \<lparr>mountPoints = [], paths = [], blockdev = [], mountFails = False\<rparr>))"
proof -
  let ?req = "\<lparr>cv_Name = ''d1'',
          cv_VolumeCapabilities = [\<lparr>AccessType = VolumeCapability_Block, AccessMode = 1\<rparr>],
          cv_CapacityRange = Some \<lparr>RequiredBytes = 10737418240, LimitBytes = 5368709120\<rparr>,
          cv_Parameters = [], cv_AccessibilityRequirements = None\<rparr>"
  let ?ereq = "\<lparr>nev_VolumeId = ''zone-a/d1'', nev_VolumePath = ''/mnt/d1'',
          nev_CapacityRange = Some \<lparr>RequiredBytes = 10737418240, LimitBytes = 5368709120\<rparr>\<rparr>"
  let ?m = "\<lparr>mountPoints = [], paths = [], blockdev = [], mountFails = False\<rparr>"
  note t = capacity_resolution
    [of _ None ?req "memCloud ''zone-a''" 0 emptyCloud ?ereq memNode ?m]
  show ?thesis
    using t [of "\<lparr>RequiredBytes = 1073741824, LimitBytes = 0\<rparr>"]
      t [of "\<lparr>RequiredBytes = 21474836480, LimitBytes = 32212254720\<rparr>"]
      t [of "\<lparr>RequiredBytes = 0, LimitBytes = 1073741824\<rparr>"]
      t [of "\<lparr>RequiredBytes = 10737418240, LimitBytes = 5368709120\<rparr>"]
    by simp
qed

text \<open>
  Claim C10. A field of the range that is not positive counts as absent. When neither
  field is positive the result is the 5 GiB minimum and no error; a required size that
  is not positive resolves as a required size of 0 does, and so for the limit; and the
  function fails only on a limit that is strictly positive: the bound checks apply to
  positive values only.
\<close>

theorem capacity_nonpositive_is_absent:
  "(RequiredBytes c \<le> 0 \<and> LimitBytes c \<le> 0
      \<longrightarrow> getRequestCapacity (Some c) = Inr 5368709120)
   \<and> (RequiredBytes c \<le> 0
      \<longrightarrow> getRequestCapacity (Some c) = getRequestCapacity (Some (c\<lparr>RequiredBytes := 0\<rparr>)))
   \<and> (LimitBytes c \<le> 0
      \<longrightarrow> getRequestCapacity (Some c) = getRequestCapacity (Some (c\<lparr>LimitBytes := 0\<rparr>)))
   \<and> (\<forall>e. getRequestCapacity (Some c) = Inl e \<longrightarrow> 0 < LimitBytes c)"
  by (auto simp: capacity_defs Let_def split: if_splits)

theorem capacity_nonpositive_is_absent_witness:
  "getRequestCapacity (Some \<lparr>RequiredBytes = - 4, LimitBytes = 0\<rparr>) = Inr 5368709120
   \<and> getRequestCapacity (Some \<lparr>RequiredBytes = - 4, LimitBytes = - 1\<rparr>) = Inr 5368709120
   \<and> getRequestCapacity (Some \<lparr>RequiredBytes = 10737418240, LimitBytes = - 1\<rparr>)
       = getRequestCapacity (Some \<lparr>RequiredBytes = 10737418240, LimitBytes = 0\<rparr>)"
  using capacity_nonpositive_is_absent [of "\<lparr>RequiredBytes = - 4, LimitBytes = 0\<rparr>"]
    capacity_nonpositive_is_absent [of "\<lparr>RequiredBytes = - 4, LimitBytes = - 1\<rparr>"]
    capacity_nonpositive_is_absent [of "\<lparr>RequiredBytes = 10737418240, LimitBytes = - 1\<rparr>"]
  by simp

section \<open>Theorems: topology selection\<close>









lemma Intn_less: "0 < n \<Longrightarrow> Intn seed n < n"
  by (simp add: Intn_def)

lemma CreateVolume_parameters_error:
  "CreateVolume_parameters params diskType configuredZone = Inl err \<Longrightarrow>
   \<exists>msg. err = Status InvalidArgument msg"
  by (induction params diskType configuredZone rule: CreateVolume_parameters.induct)
     (auto split: if_splits)









section \<open>Theorems: the parameters of CreateVolume\<close>

lemma CreateVolume_parameters_recognised:
  "\<forall>(k, v) \<in> set params.
       k = ''csiProvisionerSecretName'' \<or> k = ''csiProvisionerSecretNamespace''
       \<or> ToLower k = ParameterKeyType \<or> ToLower k = ParameterKeyZone \<Longrightarrow>
   \<exists>d z. CreateVolume_parameters params diskType configuredZone = Inr (d, z)"
  by (induction params diskType configuredZone rule: CreateVolume_parameters.induct) auto

lemma CreateVolume_parameters_unrecognised:
  "(k, v) \<in> set params \<Longrightarrow>
   k \<noteq> ''csiProvisionerSecretName'' \<Longrightarrow> k \<noteq> ''csiProvisionerSecretNamespace'' \<Longrightarrow>
   ToLower k \<noteq> ParameterKeyType \<Longrightarrow> ToLower k \<noteq> ParameterKeyZone \<Longrightarrow>
   \<exists>msg. CreateVolume_parameters params diskType configuredZone = Inl (Status InvalidArgument msg)"
  by (induction params diskType configuredZone rule: CreateVolume_parameters.induct) auto

lemma CreateVolume_parameters_invalid:
  assumes "CreateVolume_parameters (cv_Parameters req) ''pd-standard'' [] = Inl err"
  shows "\<exists>msg. CreateVolume gceCS seed req s = (Inl (Status InvalidArgument msg), s)"
  using assms CreateVolume_parameters_error [OF assms]
  by (auto simp: CreateVolume_def Let_def split: sum.splits)

lemma ToLower_replication_type:
  "ToLower ParameterKeyReplicationType = ''replication-type''"
  by (simp add: ToLower_def toLowerChar_def ParameterKeyReplicationType_def)

lemma ToLower_disk_encryption_kms_key:
  "ToLower ParameterKeyDiskEncryptionKmsKey = ''disk-encryption-kms-key''"
  by (simp add: ToLower_def toLowerChar_def ParameterKeyDiskEncryptionKmsKey_def)

text \<open>
  Claim C3, as the code has it. \<open>CreateVolume\<close> compares the lower-cased key with two keys
  only, the disk type and the zone override, and so recognises these two in any case of
  letters. The two secret-reference keys, spelled exactly, are skipped. Every other key
  makes the call fail with \<open>InvalidArgument\<close> and leaves the cloud untouched; the
  replication type and the encryption key are among them.
\<close>

theorem parameters_recognised:
  "(k = ''csiProvisionerSecretName'' \<or> k = ''csiProvisionerSecretNamespace'' \<longrightarrow>
      CreateVolume_parameters ((k, v) # params) diskType configuredZone
        = CreateVolume_parameters params diskType configuredZone)
   \<and> (k \<noteq> ''csiProvisionerSecretName'' \<and> k \<noteq> ''csiProvisionerSecretNamespace''
        \<and> ToLower k = ParameterKeyType \<longrightarrow>
      CreateVolume_parameters ((k, v) # params) diskType configuredZone
        = CreateVolume_parameters params v configuredZone)
   \<and> (k \<noteq> ''csiProvisionerSecretName'' \<and> k \<noteq> ''csiProvisionerSecretNamespace''
        \<and> ToLower k = ParameterKeyZone \<longrightarrow>
      CreateVolume_parameters ((k, v) # params) diskType configuredZone
        = CreateVolume_parameters params diskType v)
   \<and> ((\<forall>(k, v) \<in> set params.
          k = ''csiProvisionerSecretName'' \<or> k = ''csiProvisionerSecretNamespace''
          \<or> ToLower k = ParameterKeyType \<or> ToLower k = ParameterKeyZone) \<longrightarrow>
      (\<exists>d z. CreateVolume_parameters params diskType configuredZone = Inr (d, z)))
   \<and> ((\<exists>(k, v) \<in> set params.
          k \<noteq> ''csiProvisionerSecretName'' \<and> k \<noteq> ''csiProvisionerSecretNamespace''
          \<and> ToLower k \<noteq> ParameterKeyType \<and> ToLower k \<noteq> ParameterKeyZone) \<longrightarrow>
      (\<exists>msg. CreateVolume_parameters params diskType configuredZone
                = Inl (Status InvalidArgument msg)))
   \<and> ((\<exists>(k, v) \<in> set (cv_Parameters req).
          k \<noteq> ''csiProvisionerSecretName'' \<and> k \<noteq> ''csiProvisionerSecretNamespace''
          \<and> ToLower k \<noteq> ParameterKeyType \<and> ToLower k \<noteq> ParameterKeyZone) \<longrightarrow>
      (\<exists>msg. CreateVolume gceCS seed req s = (Inl (Status InvalidArgument msg), s)))
   \<and> (\<exists>msg. CreateVolume_parameters ((ParameterKeyReplicationType, v) # params) diskType
                configuredZone = Inl (Status InvalidArgument msg))
   \<and> (\<exists>msg. CreateVolume_parameters ((ParameterKeyDiskEncryptionKmsKey, v) # params) diskType
                configuredZone = Inl (Status InvalidArgument msg))"
proof -
  have type_zone: "ParameterKeyType \<noteq> ParameterKeyZone"
    by (simp add: ParameterKeyType_def ParameterKeyZone_def)
  have unrec: "\<exists>(k, v) \<in> set ps.
          k \<noteq> ''csiProvisionerSecretName'' \<and> k \<noteq> ''csiProvisionerSecretNamespace''
          \<and> ToLower k \<noteq> ParameterKeyType \<and> ToLower k \<noteq> ParameterKeyZone \<Longrightarrow>
      \<exists>msg. CreateVolume_parameters ps d z = Inl (Status InvalidArgument msg)" for ps d z
    using CreateVolume_parameters_unrecognised [of _ _ ps d z] by fastforce
  show ?thesis
    apply (intro conjI)
    subgoal by simp
    subgoal by simp
    subgoal using type_zone by simp
    subgoal using CreateVolume_parameters_recognised [of params diskType configuredZone] by blast
    subgoal using unrec [of params diskType configuredZone] by blast
    subgoal
      using unrec [of "cv_Parameters req" "''pd-standard''" "[]"]
        CreateVolume_parameters_invalid [of req _ gceCS seed s] by blast
    subgoal
      by (simp add: ToLower_replication_type ParameterKeyType_def ParameterKeyZone_def)
         (simp add: ParameterKeyReplicationType_def)
    subgoal
      by (simp add: ToLower_disk_encryption_kms_key ParameterKeyType_def ParameterKeyZone_def)
         (simp add: ParameterKeyDiskEncryptionKmsKey_def)
    done
qed


theorem parameters_recognised_witness:
  "CreateVolume_parameters
     [(''TYPE'', ''pd-ssd''), (''csiProvisionerSecretName'', ''n''), (''Zone'', ''zone-b'')]
     ''pd-standard'' [] = Inr (''pd-ssd'', ''zone-b'')
   \<and> (\<exists>msg. CreateVolume (memCloud ''zone-a'') 0
         \<lparr>cv_Name = ''d1'',
          cv_VolumeCapabilities = [\<lparr>AccessType = VolumeCapability_Block, AccessMode = 1\<rparr>],
          cv_CapacityRange = None,
          cv_Parameters = [(''type'', ''pd-ssd''), (''fstype'', ''ext4'')],
          cv_AccessibilityRequirements = None\<rparr> emptyCloud
        = (Inl (Status InvalidArgument msg), emptyCloud))"
proof -
  let ?req = "\<lparr>cv_Name = ''d1'',
          cv_VolumeCapabilities = [\<lparr>AccessType = VolumeCapability_Block, AccessMode = 1\<rparr>],
          cv_CapacityRange = None,
          cv_Parameters = [(''type'', ''pd-ssd''), (''fstype'', ''ext4'')],
          cv_AccessibilityRequirements = None\<rparr>"
  note t = parameters_recognised [of _ _ _ _ _ ?req "memCloud ''zone-a''" 0 emptyCloud]
  have lower: "ToLower ''TYPE'' = ParameterKeyType" "ToLower ''Zone'' = ParameterKeyZone"
    "ToLower ''type'' = ParameterKeyType" "ToLower ''fstype'' = ''fstype''"
    by (simp_all add: ToLower_def toLowerChar_def ParameterKeyType_def ParameterKeyZone_def)
  have a: "CreateVolume_parameters [(''TYPE'', ''pd-ssd''), (''csiProvisionerSecretName'', ''n''),
             (''Zone'', ''zone-b'')] ''pd-standard'' []
           = CreateVolume_parameters [(''csiProvisionerSecretName'', ''n''), (''Zone'', ''zone-b'')]
               ''pd-ssd'' []"
    using t [of "''TYPE''" "''pd-ssd''"
        "[(''csiProvisionerSecretName'', ''n''), (''Zone'', ''zone-b'')]" "''pd-standard''" "[]"]
      lower
    by simp
  have b: "CreateVolume_parameters [(''csiProvisionerSecretName'', ''n''), (''Zone'', ''zone-b'')]
             ''pd-ssd'' []
           = CreateVolume_parameters [(''Zone'', ''zone-b'')] ''pd-ssd'' []"
    using t [of "''csiProvisionerSecretName''" "''n''" "[(''Zone'', ''zone-b'')]" "''pd-ssd''" "[]"]
    by simp
  have c: "CreateVolume_parameters [(''Zone'', ''zone-b'')] ''pd-ssd'' []
           = CreateVolume_parameters [] ''pd-ssd'' ''zone-b''"
    using t [of "''Zone''" "''zone-b''" "[]" "''pd-ssd''" "[]"] lower
    by simp
  have d: "\<exists>msg. CreateVolume (memCloud ''zone-a'') 0 ?req emptyCloud
        = (Inl (Status InvalidArgument msg), emptyCloud)"
    using t [of "''x''" "''y''" "[]" "''pd-standard''" "[]"] lower
    by (simp add: ParameterKeyType_def ParameterKeyZone_def)
  from a b c d show ?thesis by simp
qed


text \<open>
  The claim as stated fails: a request whose only parameter is the replication type, or
  the encryption key, is refused.
\<close>

theorem parameters_replication_type_rejected:
  "CreateVolume (memCloud ''zone-a'') 0
     \<lparr>cv_Name = ''d1'',
      cv_VolumeCapabilities = [\<lparr>AccessType = VolumeCapability_Block, AccessMode = 1\<rparr>],
      cv_CapacityRange = None,
      cv_Parameters = [(ParameterKeyReplicationType, ''none'')],
      cv_AccessibilityRequirements = None\<rparr> emptyCloud
   = (Inl (Status InvalidArgument ''invalid option replication-type''), emptyCloud)
   \<and> CreateVolume (memCloud ''zone-a'') 0
     \<lparr>cv_Name = ''d1'',
      cv_VolumeCapabilities = [\<lparr>AccessType = VolumeCapability_Block, AccessMode = 1\<rparr>],
      cv_CapacityRange = None,
      cv_Parameters = [(ParameterKeyDiskEncryptionKmsKey, ''projects/p/locations/l/keyRings/r/cryptoKeys/k'')],
      cv_AccessibilityRequirements = None\<rparr> emptyCloud
   = (Inl (Status InvalidArgument ''invalid option disk-encryption-kms-key''), emptyCloud)"
  by (simp add: CreateVolume_def Let_def capacity_defs ToLower_replication_type
        ToLower_disk_encryption_kms_key ParameterKeyType_def ParameterKeyZone_def)
     (simp add: ParameterKeyReplicationType_def ParameterKeyDiskEncryptionKmsKey_def)

section \<open>Theorems: CreateVolume\<close>

lemma CreateVolume_resolved:
  assumes "cv_Name req \<noteq> []" and "cv_VolumeCapabilities req \<noteq> []"
    and "getRequestCapacity (cv_CapacityRange req) = Inr capBytes"
    and "CreateVolume_parameters (cv_Parameters req) ''pd-standard'' [] = Inr (diskType, paramZone)"
    and "CreateVolume_zone gceCS seed (cv_AccessibilityRequirements req) paramZone = Inr zone"
  shows "CreateVolume gceCS seed req s =
           CreateVolume_disk gceCS zone (cv_Name req) diskType (cv_CapacityRange req) capBytes s"
  using assms by (simp add: CreateVolume_def Let_def)

lemma CreateVolume_disk_exists:
  assumes "GetAndValidateExistingDisk gceCS zone name diskType (GetRequiredBytes capRange)
             (GetLimitBytes capRange) s = (Inr True, s1)"
  shows "CreateVolume_disk gceCS zone name diskType capRange capBytes s =
           (Inr \<lparr>Volume_CapacityBytes = capBytes, Volume_Id = zone @ ''/'' @ name,
                  Volume_AccessibleTopology = [\<lparr>Segments = Some [(TopologyKeyZone, zone)]\<rparr>]\<rparr>, s1)"
  using assms by (simp add: CreateVolume_disk_def Let_def CombineVolumeId_def)

lemma CreateVolume_disk_error:
  assumes "GetAndValidateExistingDisk gceCS zone name diskType (GetRequiredBytes capRange)
             (GetLimitBytes capRange) s = (Inl err, s1)"
  shows "CreateVolume_disk gceCS zone name diskType capRange capBytes s = (Inl err, s1)"
  using assms by (simp add: CreateVolume_disk_def Let_def)

lemma sizeGb_max:
  "(if BytesToGb capBytes < MinimumDiskSizeInGb then MinimumDiskSizeInGb else BytesToGb capBytes)
     = max 5 (capBytes div 1073741824)"
  by (simp add: BytesToGb_def MinimumDiskSizeInGb_def max_def)

lemma CreateVolume_disk_insert:
  assumes "GetAndValidateExistingDisk gceCS zone name diskType (GetRequiredBytes capRange)
             (GetLimitBytes capRange) s = (Inr False, s1)"
  shows "CreateVolume_disk gceCS zone name diskType capRange capBytes s =
     (let createResp = \<lparr>Volume_CapacityBytes = capBytes, Volume_Id = zone @ ''/'' @ name,
                  Volume_AccessibleTopology = [\<lparr>Segments = Some [(TopologyKeyZone, zone)]\<rparr>]\<rparr>
      in case InsertDisk gceCS zone
             \<lparr>Disk_Name = name, Disk_SizeGb = max 5 (capBytes div 1073741824),
              Disk_Description = ''Disk created by GCE-PD CSI Driver'',
              Disk_Type = GetDiskTypeURI gceCS zone diskType, Disk_Kind = []\<rparr> s1 of
           (Inl err, s2) \<Rightarrow>
             if IsGCEError err ''alreadyExists''
             then CreateVolume_recheck gceCS zone name diskType capRange createResp s2
             else (Inl (Status Internal ''unkown Insert disk error''), s2)
         | (Inr insertOp, s2) \<Rightarrow>
             (case WaitForOp gceCS insertOp zone s2 of
                (Some err, s3) \<Rightarrow>
                  if IsGCEError err ''alreadyExists''
                  then CreateVolume_recheck gceCS zone name diskType capRange createResp s3
                  else (Inl (Status Internal ''unkown Insert disk operation error''), s3)
              | (None, s3) \<Rightarrow> (Inr createResp, s3)))"
  using assms by (simp add: CreateVolume_disk_def Let_def CombineVolumeId_def sizeGb_max)

text \<open>
  Claim C4. \<open>CreateVolume\<close> is idempotent. For a request that passes validation and
  resolves to a capacity, a disk type and a zone, the call asks the cloud for an existing
  disk of that name and zone, with the requested type and capacity bounds (\<open>existing\<close>).
  If the cloud finds one and accepts it, the call succeeds with the identifier
  \<open>zone/name\<close> and the cloud is left as that one query left it: no insert is issued.
  If the query fails, as the cloud client does with \<open>AlreadyExists\<close> on a disk that does
  not fit, the call fails with that error. If there is no disk, the call inserts one;
  when the insert, or the wait for its operation, reports "alreadyExists", the call runs
  the same query again and succeeds unless the query fails.
\<close>

theorem create_volume_idempotent:
  assumes "cv_Name req \<noteq> []" and "cv_VolumeCapabilities req \<noteq> []"
    and "getRequestCapacity (cv_CapacityRange req) = Inr capBytes"
    and "CreateVolume_parameters (cv_Parameters req) ''pd-standard'' [] = Inr (diskType, paramZone)"
    and "CreateVolume_zone gceCS seed (cv_AccessibilityRequirements req) paramZone = Inr zone"
  shows
    "(let existing = GetAndValidateExistingDisk gceCS zone (cv_Name req) diskType
                       (GetRequiredBytes (cv_CapacityRange req)) (GetLimitBytes (cv_CapacityRange req));
          volume = \<lparr>Volume_CapacityBytes = capBytes, Volume_Id = zone @ ''/'' @ cv_Name req,
                     Volume_AccessibleTopology = [\<lparr>Segments = Some [(TopologyKeyZone, zone)]\<rparr>]\<rparr>;
          insert = InsertDisk gceCS zone
                     \<lparr>Disk_Name = cv_Name req, Disk_SizeGb = max 5 (capBytes div 1073741824),
                      Disk_Description = ''Disk created by GCE-PD CSI Driver'',
                      Disk_Type = GetDiskTypeURI gceCS zone diskType, Disk_Kind = []\<rparr>;
          recheck = (\<lambda>s'. case existing s' of
                             (Inl err, s'') \<Rightarrow> (Inl err, s'')
                           | (Inr exists, s'') \<Rightarrow> (Inr volume, s''))
      in (\<forall>s1. existing s = (Inr True, s1) \<longrightarrow> CreateVolume gceCS seed req s = (Inr volume, s1))
       \<and> (\<forall>err s1. existing s = (Inl err, s1) \<longrightarrow> CreateVolume gceCS seed req s = (Inl err, s1))
       \<and> (\<forall>s1 err s2. existing s = (Inr False, s1) \<and> insert s1 = (Inl err, s2)
                       \<and> IsGCEError err ''alreadyExists'' \<longrightarrow>
              CreateVolume gceCS seed req s = recheck s2)
       \<and> (\<forall>s1 insertOp s2 err s3. existing s = (Inr False, s1) \<and> insert s1 = (Inr insertOp, s2)
                       \<and> WaitForOp gceCS insertOp zone s2 = (Some err, s3)
                       \<and> IsGCEError err ''alreadyExists'' \<longrightarrow>
              CreateVolume gceCS seed req s = recheck s3)
       \<and> (\<forall>s1 insertOp s2 s3. existing s = (Inr False, s1) \<and> insert s1 = (Inr insertOp, s2)
                       \<and> WaitForOp gceCS insertOp zone s2 = (None, s3) \<longrightarrow>
              CreateVolume gceCS seed req s = (Inr volume, s3)))"
  unfolding Let_def CreateVolume_resolved [OF assms]
  apply (intro conjI allI impI)
  subgoal by (simp add: CreateVolume_disk_exists)
  subgoal by (simp add: CreateVolume_disk_error)
  subgoal
    by (simp add: CreateVolume_disk_insert CreateVolume_recheck_def Let_def
          split: prod.splits sum.splits)
  subgoal
    by (simp add: CreateVolume_disk_insert CreateVolume_recheck_def Let_def
          split: prod.splits sum.splits)
  subgoal by (simp add: CreateVolume_disk_insert Let_def)
  done


lemma memCloud_sel:
  "GetZone (memCloud z) = z"
  "GetDiskTypeURI (memCloud z) = memGetDiskTypeURI"
  "GetDiskSourceURI (memCloud z) = (\<lambda>d z. ''zones/'' @ z @ ''/disks/'' @ Disk_Name d)"
  "GetAndValidateExistingDisk (memCloud z) = memGetAndValidateExistingDisk"
  "InsertDisk (memCloud z) = memInsertDisk"
  "DeleteDisk (memCloud z) = memDeleteDisk"
  "WaitForOp (memCloud z) = (\<lambda>op z s. (None, s))"
  "GetDiskOrError (memCloud z) = memGetDiskOrError"
  "GetInstanceOrError (memCloud z) = memGetInstanceOrError"
  "AttachDisk (memCloud z) = memAttachDisk"
  "WaitForAttach (memCloud z) = (\<lambda>z d n s. (None, s))"
  by (simp_all add: memCloud_def)

lemma d1Request_resolves:
  "cv_Name (d1Request r) \<noteq> []" "cv_VolumeCapabilities (d1Request r) \<noteq> []"
  "CreateVolume_parameters (cv_Parameters (d1Request r)) ''pd-standard'' [] = Inr (''pd-standard'', [])"
  "CreateVolume_zone (memCloud ''zone-a'') seed (cv_AccessibilityRequirements (d1Request r)) []
     = Inr ''zone-a''"
  by (simp_all add: d1Request_def CreateVolume_zone_def memCloud_sel)

lemmas memCloud_eval =
  memCloud_sel memGetAndValidateExistingDisk_def memInsertDisk_def memGetDiskTypeURI_def
  emptyCloud_def cloudWithD1_def cloudWithRace_def d1Disk_def d1Volume_def d1Request_def
  GetRequiredBytes_def GetLimitBytes_def TopologyKeyZone_def Let_def

theorem create_volume_idempotent_witness:
  "CreateVolume (memCloud ''zone-a'') 0 (d1Request 21474836480) emptyCloud = (Inr d1Volume, cloudWithD1)
   \<and> CreateVolume (memCloud ''zone-a'') 0 (d1Request 21474836480) cloudWithD1 = (Inr d1Volume, cloudWithD1)
   \<and> CreateVolume (memCloud ''zone-a'') 0 (d1Request 32212254720) cloudWithD1
       = (Inl (Status AlreadyExists ''disk already exists with incompatible properties''), cloudWithD1)
   \<and> CreateVolume (memCloud ''zone-a'') 0 (d1Request 21474836480) cloudWithRace
       = (Inr d1Volume, emptyCloud\<lparr>disks := [((''zone-a'', ''d1''), d1Disk)],
                                    insertRequests := [d1Disk]\<rparr>)"
proof -
  have cap20: "getRequestCapacity (cv_CapacityRange (d1Request 21474836480)) = Inr 21474836480"
    and cap30: "getRequestCapacity (cv_CapacityRange (d1Request 32212254720)) = Inr 32212254720"
    by (simp_all add: d1Request_def capacity_defs)
  note t20 = create_volume_idempotent [OF d1Request_resolves(1,2) cap20 d1Request_resolves(3,4),
      where seed = 0, unfolded Let_def]
  note t30 = create_volume_idempotent [OF d1Request_resolves(1,2) cap30 d1Request_resolves(3,4),
      where seed = 0 and s = cloudWithD1, unfolded Let_def]
  have first: "CreateVolume (memCloud ''zone-a'') 0 (d1Request 21474836480) emptyCloud
                 = (Inr d1Volume, cloudWithD1)"
    using t20 [where s = emptyCloud] by (simp add: memCloud_eval)
  have second: "CreateVolume (memCloud ''zone-a'') 0 (d1Request 21474836480) cloudWithD1
                 = (Inr d1Volume, cloudWithD1)"
    using t20 [where s = cloudWithD1] by (simp add: memCloud_eval)
  have incompatible: "CreateVolume (memCloud ''zone-a'') 0 (d1Request 32212254720) cloudWithD1
       = (Inl (Status AlreadyExists ''disk already exists with incompatible properties''), cloudWithD1)"
    using t30 by (simp add: memCloud_eval)
  have race: "CreateVolume (memCloud ''zone-a'') 0 (d1Request 21474836480) cloudWithRace
       = (Inr d1Volume, emptyCloud\<lparr>disks := [((''zone-a'', ''d1''), d1Disk)],
                                    insertRequests := [d1Disk]\<rparr>)"
    using t20 [where s = cloudWithRace] by (simp add: memCloud_eval)
  from first second incompatible race show ?thesis by simp
qed


lemma CreateVolume_zone_error:
  "CreateVolume_zone gceCS seed accessibilityRequirements configuredZone = Inl err \<Longrightarrow>
   \<exists>msg. err = Status InvalidArgument msg"
  by (auto simp: CreateVolume_zone_def split: option.splits if_splits sum.splits)

lemma CreateVolume_disk_not_Aborted:
  assumes "\<forall>zone name diskType reqBytes limBytes s0 err s1.
             GetAndValidateExistingDisk gceCS zone name diskType reqBytes limBytes s0 = (Inl err, s1)
             \<longrightarrow> codeOf err \<noteq> Aborted"
    and "CreateVolume_disk gceCS zone name diskType capRange capBytes s = (Inl err, s')"
  shows "codeOf err \<noteq> Aborted"
proof -
  from assms(1) have check: "\<And>s0 e s1.
      GetAndValidateExistingDisk gceCS zone name diskType (GetRequiredBytes capRange)
        (GetLimitBytes capRange) s0 = (Inl e, s1) \<Longrightarrow> codeOf e \<noteq> Aborted"
    by blast
  from assms(2) show ?thesis
    by (auto simp: CreateVolume_disk_def CreateVolume_recheck_def Let_def dest: check
          split: prod.splits sum.splits option.splits if_splits)
qed

text \<open>
  Claim C1, as the code has it. \<open>GCEControllerServer\<close> holds a driver and a cloud provider
  and no lock registry: \<open>CreateVolume\<close> takes no lock. It never answers \<open>Aborted\<close> of its
  own: its failures are \<open>InvalidArgument\<close>, \<open>Internal\<close>, or the error of the cloud's query
  for an existing disk, so unless that query fails with \<open>Aborted\<close>, the call does not.
\<close>

theorem create_volume_takes_no_lock:
  assumes "\<forall>zone name diskType reqBytes limBytes s0 err s1.
             GetAndValidateExistingDisk gceCS zone name diskType reqBytes limBytes s0 = (Inl err, s1)
             \<longrightarrow> codeOf err \<noteq> Aborted"
  shows "\<forall>err s'. CreateVolume gceCS seed req s = (Inl err, s') \<longrightarrow> codeOf err \<noteq> Aborted"
proof (intro allI impI)
  fix err s'
  assume failed: "CreateVolume gceCS seed req s = (Inl err, s')"
  then show "codeOf err \<noteq> Aborted"
    using CreateVolume_disk_not_Aborted [OF assms]
    by (auto simp: CreateVolume_def Let_def
          dest!: CreateVolume_parameters_error CreateVolume_zone_error
          split: if_splits sum.splits prod.splits)
qed

theorem create_volume_takes_no_lock_witness:
  "CreateVolume (memCloud ''zone-a'') 0 (d1Request 32212254720) cloudWithD1
     = (Inl (Status AlreadyExists ''disk already exists with incompatible properties''), cloudWithD1)
   \<and> codeOf (Status AlreadyExists ''disk already exists with incompatible properties'') \<noteq> Aborted"
proof -
  have check: "\<forall>zone name diskType reqBytes limBytes s0 err s1.
      GetAndValidateExistingDisk (memCloud ''zone-a'') zone name diskType reqBytes limBytes s0
        = (Inl err, s1) \<longrightarrow> codeOf err \<noteq> Aborted"
    by (auto simp: memCloud_sel memGetAndValidateExistingDisk_def
          split: option.splits if_splits)
  have failed: "CreateVolume (memCloud ''zone-a'') 0 (d1Request 32212254720) cloudWithD1
     = (Inl (Status AlreadyExists ''disk already exists with incompatible properties''), cloudWithD1)"
    by (simp add: CreateVolume_def CreateVolume_zone_def CreateVolume_disk_def capacity_defs
          memCloud_eval)
  from create_volume_takes_no_lock [OF check, of 0 "d1Request 32212254720" cloudWithD1] failed
  show ?thesis by simp
qed

text \<open>
  The claim as stated fails: while a concurrent creator of the same name is at work (its
  disk appears between the query and the insert), the call is not refused; it issues its
  own insert and succeeds.
\<close>

theorem create_volume_runs_beside_a_concurrent_creator:
  "fst (CreateVolume (memCloud ''zone-a'') 0 (d1Request 21474836480) cloudWithRace) = Inr d1Volume
   \<and> insertRequests (snd (CreateVolume (memCloud ''zone-a'') 0 (d1Request 21474836480) cloudWithRace))
       = [d1Disk]"
  by (simp add: CreateVolume_def CreateVolume_zone_def CreateVolume_disk_def CreateVolume_recheck_def
        capacity_defs BytesToGb_def MinimumDiskSizeInGb_def CombineVolumeId_def
        IsGCEError.simps memCloud_eval)

section \<open>Theorems: DeleteVolume\<close>

lemma IsGCEError_one_reason:
  "IsGCEError err reason \<Longrightarrow> reason' \<noteq> reason \<Longrightarrow> \<not> IsGCEError err reason'"
  by (cases err) auto

lemma SplitZoneNameId_zone_a:
  "SplitZoneNameId ''zone-a/d1'' = Inr (''zone-a'', ''d1'')"
  "SplitZoneNameId ''zone-a/d2'' = Inr (''zone-a'', ''d2'')"
  "SplitZoneNameId ''d1'' = Inl (Errorf ''failed to get id components'')"
  "SplitZoneNameId [] = Inl (Errorf ''failed to get id components'')"
  by (simp_all add: SplitZoneNameId_def)

text \<open>
  Claim C5, as the code has it. \<open>DeleteVolume\<close> refuses an empty volume identifier with
  \<open>InvalidArgument\<close>. For an identifier that is not empty: if it fails to decode, the call
  succeeds and the cloud is not asked; if the cloud answers the delete request with "not
  found", the call succeeds; if it answers "in use by another resource", the call fails
  with \<open>FailedPrecondition\<close>; every other error of the request, and every error of the
  wait for the delete operation, fails with \<open>Internal\<close>; otherwise the call succeeds.
\<close>

theorem delete_volume_lenient:
  "(volumeID = [] \<longrightarrow>
      (\<exists>msg. DeleteVolume gceCS volumeID s = (Inl (Status InvalidArgument msg), s)))
   \<and> (volumeID \<noteq> [] \<longrightarrow>
      (\<forall>e. SplitZoneNameId volumeID = Inl e \<longrightarrow> DeleteVolume gceCS volumeID s = (Inr (), s))
      \<and> (\<forall>zone name. SplitZoneNameId volumeID = Inr (zone, name) \<longrightarrow>
           (\<forall>err s1. DeleteDisk gceCS zone name s = (Inl err, s1) \<longrightarrow>
              (IsGCEError err ''notFound'' \<longrightarrow> DeleteVolume gceCS volumeID s = (Inr (), s1))
              \<and> (IsGCEError err ''resourceInUseByAnotherResource'' \<longrightarrow>
                   (\<exists>msg. DeleteVolume gceCS volumeID s
                            = (Inl (Status FailedPrecondition msg), s1)))
              \<and> (\<not> IsGCEError err ''notFound''
                   \<and> \<not> IsGCEError err ''resourceInUseByAnotherResource'' \<longrightarrow>
                   (\<exists>msg. DeleteVolume gceCS volumeID s = (Inl (Status Internal msg), s1))))
           \<and> (\<forall>deleteOp s1. DeleteDisk gceCS zone name s = (Inr deleteOp, s1) \<longrightarrow>
              (\<forall>err s2. WaitForOp gceCS deleteOp zone s1 = (Some err, s2) \<longrightarrow>
                 (\<exists>msg. DeleteVolume gceCS volumeID s = (Inl (Status Internal msg), s2)))
              \<and> (\<forall>s2. WaitForOp gceCS deleteOp zone s1 = (None, s2) \<longrightarrow>
                   DeleteVolume gceCS volumeID s = (Inr (), s2)))))"
proof -
  have notFound: "IsGCEError err ''notFound'' \<Longrightarrow> \<not> IsGCEError err ''resourceInUseByAnotherResource''"
    for err
    using IsGCEError_one_reason [of err "''notFound''" "''resourceInUseByAnotherResource''"]
    by simp
  show ?thesis
    apply (intro conjI impI allI)
    subgoal by (simp add: DeleteVolume_def)
    subgoal by (simp add: DeleteVolume_def)
    subgoal by (simp add: DeleteVolume_def notFound)
    subgoal by (simp add: DeleteVolume_def)
    subgoal by (simp add: DeleteVolume_def)
    subgoal by (simp add: DeleteVolume_def)
    subgoal by (simp add: DeleteVolume_def)
    done
qed

theorem delete_volume_lenient_witness:
  "DeleteVolume (memCloud ''zone-a'') ''d1'' cloudWithD1 = (Inr (), cloudWithD1)
   \<and> DeleteVolume (memCloud ''zone-a'') ''zone-a/d2'' cloudWithD1 = (Inr (), cloudWithD1)
   \<and> (\<exists>msg. DeleteVolume (memCloud ''zone-a'') ''zone-a/d1'' cloudWithD1Attached
              = (Inl (Status FailedPrecondition msg), cloudWithD1Attached))
   \<and> DeleteVolume (memCloud ''zone-a'') ''zone-a/d1'' cloudWithD1
       = (Inr (), emptyCloud\<lparr>insertRequests := [d1Disk]\<rparr>)"
proof -
  note eval = memCloud_sel memDeleteDisk_def memIsAttached_def cloudWithD1_def
    cloudWithD1Attached_def emptyCloud_def d1Disk_def d1Attachment_def SplitZoneNameId_zone_a
  note t = delete_volume_lenient [where gceCS = "memCloud ''zone-a''"]
  have a: "DeleteVolume (memCloud ''zone-a'') ''d1'' cloudWithD1 = (Inr (), cloudWithD1)"
    using t [of "''d1''" cloudWithD1] by (simp add: eval)
  have b: "DeleteVolume (memCloud ''zone-a'') ''zone-a/d2'' cloudWithD1 = (Inr (), cloudWithD1)"
    using t [of "''zone-a/d2''" cloudWithD1] by (simp add: eval)
  have c: "\<exists>msg. DeleteVolume (memCloud ''zone-a'') ''zone-a/d1'' cloudWithD1Attached
              = (Inl (Status FailedPrecondition msg), cloudWithD1Attached)"
    using t [of "''zone-a/d1''" cloudWithD1Attached] by (simp add: eval)
  have d: "DeleteVolume (memCloud ''zone-a'') ''zone-a/d1'' cloudWithD1
       = (Inr (), emptyCloud\<lparr>insertRequests := [d1Disk]\<rparr>)"
    using t [of "''zone-a/d1''" cloudWithD1] by (simp add: eval)
  from a b c d show ?thesis by simp
qed

text \<open>
  The claim as stated fails at the empty identifier: it does not decode, and the call
  fails.
\<close>

theorem delete_volume_empty_identifier:
  "SplitZoneNameId [] = Inl (Errorf ''failed to get id components'')
   \<and> DeleteVolume (memCloud ''zone-a'') [] emptyCloud
       = (Inl (Status InvalidArgument ''DeleteVolume Volume ID must be provided''), emptyCloud)"
  by (simp add: DeleteVolume_def SplitZoneNameId_def)

section \<open>Theorems: ControllerPublishVolume\<close>

lemma diskIsAttachedAndCompatible_range_find:
  "diskIsAttachedAndCompatible_range attached volume readWrite =
     (case find (\<lambda>d. AttachedDisk_DeviceName d = Disk_Name volume) attached of
        None \<Rightarrow> (False, None)
      | Some a \<Rightarrow>
          if AttachedDisk_Mode a \<noteq> readWrite
          then (True, Some (Errorf ''disk mode does not match''))
          else (True, None))"
  by (induction attached) auto

lemma ControllerPublishVolume_resolved:
  assumes "cpv_VolumeId req \<noteq> []" and "cpv_NodeId req \<noteq> []"
    and "cpv_VolumeCapability req = Some volumeCapability"
    and "SplitZoneNameId (cpv_VolumeId req) = Inr (volumeZone, volumeName)"
    and "GetDiskOrError gceCS volumeZone volumeName s = (Inr disk, s1)"
    and "GetInstanceOrError gceCS volumeZone (cpv_NodeId req) s1 = (Inr instance, s2)"
  shows "ControllerPublishVolume gceCS req s =
     (let readWrite = (if cpv_Readonly req then ''READ_ONLY'' else ''READ_WRITE'')
      in case find (\<lambda>d. AttachedDisk_DeviceName d = Disk_Name disk) (Instance_Disks instance) of
           None \<Rightarrow>
             ControllerPublishVolume_attach gceCS volumeZone (cpv_NodeId req) disk readWrite s2
         | Some a \<Rightarrow>
             if AttachedDisk_Mode a \<noteq> readWrite
             then (Inl (Status AlreadyExists
                     ''Disk already published to node but incompatbile''), s2)
             else (Inr (), s2))"
  using assms
  by (simp add: ControllerPublishVolume_def Let_def diskIsAttachedAndCompatible_def
        diskIsAttachedAndCompatible_range_find split: option.splits)

text \<open>
  Claim C6. \<open>ControllerPublishVolume\<close> is idempotent. For a valid request whose volume
  identifier decodes and whose disk and instance the cloud returns: if the instance
  already holds the disk (an attached disk with the disk's name as device name) in the
  requested mode, the call succeeds and the cloud is left as the two reads left it: no
  attach is issued; if it holds the disk in another mode, the call fails with
  \<open>AlreadyExists\<close>; otherwise the call issues an attach of the disk in mode \<open>READ_ONLY\<close> or
  \<open>READ_WRITE\<close> as \<open>readOnly\<close> says, waits for the attach operation, then waits for the
  attachment with \<open>WaitForAttach\<close>, and succeeds when all three do; a failure of any of the
  three is \<open>Internal\<close>.
\<close>

theorem controller_publish_idempotent:
  assumes "cpv_VolumeId req \<noteq> []" and "cpv_NodeId req \<noteq> []"
    and "cpv_VolumeCapability req = Some volumeCapability"
    and "SplitZoneNameId (cpv_VolumeId req) = Inr (volumeZone, volumeName)"
    and "GetDiskOrError gceCS volumeZone volumeName s = (Inr disk, s1)"
    and "GetInstanceOrError gceCS volumeZone (cpv_NodeId req) s1 = (Inr instance, s2)"
  shows
    "(let readWrite = (if cpv_Readonly req then ''READ_ONLY'' else ''READ_WRITE'');
          attachment = find (\<lambda>d. AttachedDisk_DeviceName d = Disk_Name disk)
                         (Instance_Disks instance);
          request = \<lparr>AttachedDisk_DeviceName = Disk_Name disk,
                      AttachedDisk_Kind = Disk_Kind disk,
                      AttachedDisk_Mode = readWrite,
                      AttachedDisk_Source = GetDiskSourceURI gceCS disk volumeZone,
                      AttachedDisk_Type = ''PERSISTENT''\<rparr>
      in (\<forall>a. attachment = Some a \<and> AttachedDisk_Mode a = readWrite \<longrightarrow>
            ControllerPublishVolume gceCS req s = (Inr (), s2))
       \<and> (\<forall>a. attachment = Some a \<and> AttachedDisk_Mode a \<noteq> readWrite \<longrightarrow>
            (\<exists>msg. ControllerPublishVolume gceCS req s = (Inl (Status AlreadyExists msg), s2)))
       \<and> (attachment = None \<longrightarrow>
            (\<forall>err s3. AttachDisk gceCS volumeZone (cpv_NodeId req) request s2 = (Inl err, s3) \<longrightarrow>
               (\<exists>msg. ControllerPublishVolume gceCS req s = (Inl (Status Internal msg), s3)))
            \<and> (\<forall>attachOp s3.
                  AttachDisk gceCS volumeZone (cpv_NodeId req) request s2 = (Inr attachOp, s3) \<longrightarrow>
                  (\<forall>err s4. WaitForOp gceCS attachOp volumeZone s3 = (Some err, s4) \<longrightarrow>
                     (\<exists>msg. ControllerPublishVolume gceCS req s = (Inl (Status Internal msg), s4)))
                  \<and> (\<forall>s4. WaitForOp gceCS attachOp volumeZone s3 = (None, s4) \<longrightarrow>
                       (\<forall>err s5. WaitForAttach gceCS volumeZone (Disk_Name disk) (cpv_NodeId req) s4
                                    = (Some err, s5) \<longrightarrow>
                          (\<exists>msg. ControllerPublishVolume gceCS req s
                                   = (Inl (Status Internal msg), s5)))
                       \<and> (\<forall>s5. WaitForAttach gceCS volumeZone (Disk_Name disk) (cpv_NodeId req) s4
                                    = (None, s5) \<longrightarrow>
                            ControllerPublishVolume gceCS req s = (Inr (), s5))))))"
  unfolding ControllerPublishVolume_resolved [OF assms] Let_def
  apply (intro conjI impI allI)
  subgoal by simp
  subgoal by auto
  subgoal
    by (simp add: ControllerPublishVolume_attach_def Let_def attachableDiskTypePersistent_def)
  subgoal
    by (simp add: ControllerPublishVolume_attach_def Let_def attachableDiskTypePersistent_def)
  subgoal
    by (simp add: ControllerPublishVolume_attach_def Let_def attachableDiskTypePersistent_def)
  subgoal
    by (simp add: ControllerPublishVolume_attach_def Let_def attachableDiskTypePersistent_def)
  done

lemma publishD1_resolves:
  "cpv_VolumeId (publishD1 ro) \<noteq> []" "cpv_NodeId (publishD1 ro) \<noteq> []"
  "cpv_VolumeCapability (publishD1 ro) = Some \<lparr>AccessType = VolumeCapability_Block, AccessMode = 1\<rparr>"
  "SplitZoneNameId (cpv_VolumeId (publishD1 ro)) = Inr (''zone-a'', ''d1'')"
  by (simp_all add: publishD1_def SplitZoneNameId_zone_a)

theorem controller_publish_idempotent_witness:
  "ControllerPublishVolume (memCloud ''zone-a'') (publishD1 False) cloudWithNode
     = (Inr (), cloudWithD1Attached)
   \<and> ControllerPublishVolume (memCloud ''zone-a'') (publishD1 False) cloudWithD1Attached
       = (Inr (), cloudWithD1Attached)
   \<and> (\<exists>msg. ControllerPublishVolume (memCloud ''zone-a'') (publishD1 True) cloudWithD1Attached
              = (Inl (Status AlreadyExists msg), cloudWithD1Attached))"
proof -
  note eval = memCloud_sel memGetDiskOrError_def memGetInstanceOrError_def memAttachDisk_def
    cloudWithNode_def cloudWithD1Attached_def cloudWithD1_def emptyCloud_def d1Disk_def
    d1Attachment_def publishD1_def Let_def
  have disk: "GetDiskOrError (memCloud ''zone-a'') ''zone-a'' ''d1'' cloudWithNode
                = (Inr d1Disk, cloudWithNode)"
    "GetDiskOrError (memCloud ''zone-a'') ''zone-a'' ''d1'' cloudWithD1Attached
                = (Inr d1Disk, cloudWithD1Attached)"
    by (simp_all add: memCloud_sel memGetDiskOrError_def cloudWithNode_def
          cloudWithD1Attached_def cloudWithD1_def emptyCloud_def)
  have node: "GetInstanceOrError (memCloud ''zone-a'') ''zone-a'' (cpv_NodeId (publishD1 ro))
                cloudWithNode = (Inr \<lparr>Instance_Disks = []\<rparr>, cloudWithNode)"
    "GetInstanceOrError (memCloud ''zone-a'') ''zone-a'' (cpv_NodeId (publishD1 ro))
                cloudWithD1Attached
       = (Inr \<lparr>Instance_Disks = [d1Attachment ''READ_WRITE'']\<rparr>, cloudWithD1Attached)" for ro
    by (simp_all add: memCloud_sel memGetInstanceOrError_def cloudWithNode_def
          cloudWithD1Attached_def cloudWithD1_def emptyCloud_def publishD1_def)
  note fresh = controller_publish_idempotent [OF publishD1_resolves disk(1) node(1), unfolded Let_def]
  note again = controller_publish_idempotent [OF publishD1_resolves disk(2) node(2), unfolded Let_def]
  have a: "ControllerPublishVolume (memCloud ''zone-a'') (publishD1 False) cloudWithNode
     = (Inr (), cloudWithD1Attached)"
    using fresh [of False] by (simp add: eval)
  have b: "ControllerPublishVolume (memCloud ''zone-a'') (publishD1 False) cloudWithD1Attached
       = (Inr (), cloudWithD1Attached)"
    using again [of False] by (simp add: eval)
  have c: "\<exists>msg. ControllerPublishVolume (memCloud ''zone-a'') (publishD1 True) cloudWithD1Attached
              = (Inl (Status AlreadyExists msg), cloudWithD1Attached)"
    using again [of True] by (simp add: eval)
  from a b c show ?thesis by simp
qed

section \<open>Theorems: NodeExpandVolume\<close>

lemma memNode_sel:
  "validateVolumeCapability memNode = (\<lambda>c. None)"
  "GetDeviceName memNode = (\<lambda>key. Inr (VolumeKey_Name key))"
  "GetDiskByIdPaths memNode = (\<lambda>deviceName part. [''/dev/disk/by-id/google-'' @ deviceName])"
  "VerifyDevicePath memNode = memVerifyDevicePath"
  "IsLikelyNotMountPoint memNode = memIsLikelyNotMountPoint"
  "MakeDir memNode = (\<lambda>p m. (None, m\<lparr>paths := p # paths m\<rparr>))"
  "MakeFile memNode = (\<lambda>p m. (None, m\<lparr>paths := p # paths m\<rparr>))"
  "Remove memNode = (\<lambda>p m. (None, m\<lparr>paths := removeAll p (paths m)\<rparr>))"
  "Mount memNode = memMount"
  "Unmount memNode = (\<lambda>p m. (None, m\<lparr>mountPoints := removeAll p (mountPoints m)\<rparr>))"
  "FormatAndMount memNode = (\<lambda>dev target fstype options. memMount dev target fstype options)"
  "CleanupMountPoint memNode =
     (\<lambda>p m. (None, m\<lparr>mountPoints := removeAll p (mountPoints m),
                       paths := removeAll p (paths m)\<rparr>))"
  "Resize memNode = (\<lambda>dev p m. (None, m))"
  "Run memNode = memRun"
  by (simp_all add: memNode_def)

lemma VolumeIDToKey_d1:
  "VolumeIDToKey ''zone-a/d1'' = Inr \<lparr>VolumeKey_Zone = ''zone-a'', VolumeKey_Name = ''d1''\<rparr>"
  by (simp add: VolumeIDToKey_def SplitZoneNameId_zone_a)

lemma getDevicePath_d1:
  "getDevicePath memNode ''zone-a/d1'' part machineWithD1
     = (Inr ''/dev/disk/by-id/google-d1'', machineWithD1)"
  by (simp add: getDevicePath_def VolumeIDToKey_d1 memNode_sel memVerifyDevicePath_def
        machineWithD1_def)

lemma getBlockSizeBytes_d1:
  "getBlockSizeBytes memNode ''/dev/disk/by-id/google-d1'' machineWithD1
     = (Inr 10737418240, machineWithD1)"
  by (simp add: getBlockSizeBytes_def memNode_sel memRun_def machineWithD1_def TrimSpace_def
        isSpace_def ParseInt_def digitVal_def)

text \<open>
  Claim C8, as the code has it. For a valid request, \<open>NodeExpandVolume\<close> resolves the
  device path, runs the filesystem resize, then reads the size of the block device. A
  failure of any of the three is \<open>Internal\<close>. A size below the requested one is
  \<open>Internal\<close>; a size of at least the requested one is success, and the response's
  \<open>CapacityBytes\<close> is then the requested size (the capacity resolved from the request's
  range), whatever larger size the device has.
\<close>

theorem node_expand_reports_requested_size:
  assumes "nev_VolumeId req \<noteq> []"
    and "getRequestCapacity (nev_CapacityRange req) = Inr reqBytes"
    and "nev_VolumePath req \<noteq> []"
    and "VolumeIDToKey (nev_VolumeId req) = Inr volKey"
  shows
    "(\<forall>err m1. getDevicePath ns (nev_VolumeId req) [] m = (Inl err, m1) \<longrightarrow>
        (\<exists>msg. NodeExpandVolume ns req m = (Inl (Status Internal msg), m1)))
     \<and> (\<forall>devicePath m1. getDevicePath ns (nev_VolumeId req) [] m = (Inr devicePath, m1) \<longrightarrow>
        (\<forall>err m2. Resize ns devicePath (nev_VolumePath req) m1 = (Some err, m2) \<longrightarrow>
           (\<exists>msg. NodeExpandVolume ns req m = (Inl (Status Internal msg), m2)))
        \<and> (\<forall>m2. Resize ns devicePath (nev_VolumePath req) m1 = (None, m2) \<longrightarrow>
             (\<forall>err m3. getBlockSizeBytes ns devicePath m2 = (Inl err, m3) \<longrightarrow>
                (\<exists>msg. NodeExpandVolume ns req m = (Inl (Status Internal msg), m3)))
             \<and> (\<forall>gotBlockSizeBytes m3.
                   getBlockSizeBytes ns devicePath m2 = (Inr gotBlockSizeBytes, m3) \<longrightarrow>
                   (gotBlockSizeBytes < reqBytes \<longrightarrow>
                      (\<exists>msg. NodeExpandVolume ns req m = (Inl (Status Internal msg), m3)))
                   \<and> (reqBytes \<le> gotBlockSizeBytes \<longrightarrow>
                        NodeExpandVolume ns req m = (Inr \<lparr>CapacityBytes = reqBytes\<rparr>, m3)))))"
  using assms
  apply (intro conjI impI allI)
  subgoal by (simp add: NodeExpandVolume_def Let_def)
  subgoal by (simp add: NodeExpandVolume_def Let_def)
  subgoal by (simp add: NodeExpandVolume_def Let_def)
  subgoal by (simp add: NodeExpandVolume_def Let_def)
  subgoal by (simp add: NodeExpandVolume_def Let_def)
  done

theorem node_expand_reports_requested_size_witness:
  "NodeExpandVolume memNode
     (expandD1 (Some \<lparr>RequiredBytes = 8589934592, LimitBytes = 0\<rparr>)) machineWithD1
     = (Inr \<lparr>CapacityBytes = 8589934592\<rparr>, machineWithD1)
   \<and> (\<exists>msg. NodeExpandVolume memNode
         (expandD1 (Some \<lparr>RequiredBytes = 21474836480, LimitBytes = 0\<rparr>)) machineWithD1
        = (Inl (Status Internal msg), machineWithD1))"
proof -
  have valid: "nev_VolumeId (expandD1 c) \<noteq> []" "nev_VolumePath (expandD1 c) \<noteq> []"
    "VolumeIDToKey (nev_VolumeId (expandD1 c))
       = Inr \<lparr>VolumeKey_Zone = ''zone-a'', VolumeKey_Name = ''d1''\<rparr>" for c
    by (simp_all add: expandD1_def VolumeIDToKey_d1)
  have cap8: "getRequestCapacity (nev_CapacityRange
      (expandD1 (Some \<lparr>RequiredBytes = 8589934592, LimitBytes = 0\<rparr>))) = Inr 8589934592"
    and cap20: "getRequestCapacity (nev_CapacityRange
      (expandD1 (Some \<lparr>RequiredBytes = 21474836480, LimitBytes = 0\<rparr>))) = Inr 21474836480"
    by (simp_all add: expandD1_def capacity_defs)
  have path: "getDevicePath memNode (nev_VolumeId (expandD1 c)) [] machineWithD1
     = (Inr ''/dev/disk/by-id/google-d1'', machineWithD1)" for c
    by (simp add: expandD1_def getDevicePath_d1)
  have a: "NodeExpandVolume memNode
     (expandD1 (Some \<lparr>RequiredBytes = 8589934592, LimitBytes = 0\<rparr>)) machineWithD1
     = (Inr \<lparr>CapacityBytes = 8589934592\<rparr>, machineWithD1)"
    using node_expand_reports_requested_size [OF valid(1) cap8 valid(2,3),
        of memNode machineWithD1] path getBlockSizeBytes_d1
    by (simp add: memNode_sel)
  have b: "\<exists>msg. NodeExpandVolume memNode
         (expandD1 (Some \<lparr>RequiredBytes = 21474836480, LimitBytes = 0\<rparr>)) machineWithD1
        = (Inl (Status Internal msg), machineWithD1)"
    using node_expand_reports_requested_size [OF valid(1) cap20 valid(2,3),
        of memNode machineWithD1] path getBlockSizeBytes_d1
    by (simp add: memNode_sel)
  from a b show ?thesis by simp
qed

text \<open>
  The claim as stated fails: the device has 10 GiB after the resize, the request names
  no size (so 5 GiB), and the response reports 5 GiB, not the resulting 10 GiB.
\<close>

theorem node_expand_reports_requested_not_resulting:
  "getBlockSizeBytes memNode ''/dev/disk/by-id/google-d1'' machineWithD1
     = (Inr 10737418240, machineWithD1)
   \<and> NodeExpandVolume memNode (expandD1 None) machineWithD1
       = (Inr \<lparr>CapacityBytes = 5368709120\<rparr>, machineWithD1)"
  by (simp add: NodeExpandVolume_def Let_def expandD1_def capacity_defs VolumeIDToKey_d1
        getDevicePath_d1 getBlockSizeBytes_d1 memNode_sel)

section \<open>Theorems: the node operations and the volume lock\<close>

lemma Release_TryAcquire:
  "volumeID \<notin> locks \<Longrightarrow> TryAcquire volumeID locks = (True, insert volumeID locks)"
  "volumeID \<in> locks \<Longrightarrow> TryAcquire volumeID locks = (False, locks)"
  "volumeID \<notin> locks \<Longrightarrow> Release volumeID (insert volumeID locks) = locks"
  by (simp_all add: TryAcquire_def Release_def)

lemma NodeState_machine_update:
  "\<lparr>volumeLocks = volumeLocks st, machine = m\<rparr> = st\<lparr>machine := m\<rparr>"
  by (cases st) simp

lemma NodePublishVolume_lock:
  assumes "npv_VolumeId req \<noteq> []" and "npv_StagingTargetPath req \<noteq> []"
    and "npv_TargetPath req \<noteq> []" and "npv_VolumeCapability req = Some volumeCapability"
  shows "npv_VolumeId req \<in> volumeLocks st \<Longrightarrow>
           NodePublishVolume ns req st =
             (Inl (Status Aborted (VolumeOperationAlreadyExists (npv_VolumeId req))), st)"
    and "npv_VolumeId req \<notin> volumeLocks st \<Longrightarrow>
           NodePublishVolume ns req st =
             (case NodePublishVolume_locked ns req volumeCapability (machine st) of
                (result, m) \<Rightarrow> (result, st\<lparr>machine := m\<rparr>))"
  using assms
  by (simp_all add: NodePublishVolume_def Let_def Release_TryAcquire NodeState_machine_update)

lemma NodeUnpublishVolume_lock:
  assumes "nupv_VolumeId req \<noteq> []" and "nupv_TargetPath req \<noteq> []"
  shows "nupv_VolumeId req \<in> volumeLocks st \<Longrightarrow>
           NodeUnpublishVolume ns req st =
             (Inl (Status Aborted (VolumeOperationAlreadyExists (nupv_VolumeId req))), st)"
    and "nupv_VolumeId req \<notin> volumeLocks st \<Longrightarrow>
           NodeUnpublishVolume ns req st =
             (case NodeUnpublishVolume_locked ns req (machine st) of
                (result, m) \<Rightarrow> (result, st\<lparr>machine := m\<rparr>))"
  using assms
  by (simp_all add: NodeUnpublishVolume_def Let_def Release_TryAcquire NodeState_machine_update)

lemma NodeStageVolume_lock:
  assumes "nsv_VolumeId req \<noteq> []" and "nsv_StagingTargetPath req \<noteq> []"
    and "nsv_VolumeCapability req = Some volumeCapability"
  shows "nsv_VolumeId req \<in> volumeLocks st \<Longrightarrow>
           NodeStageVolume ns req st =
             (Inl (Status Aborted (VolumeOperationAlreadyExists (nsv_VolumeId req))), st)"
    and "nsv_VolumeId req \<notin> volumeLocks st \<Longrightarrow>
           NodeStageVolume ns req st =
             (case NodeStageVolume_locked ns req volumeCapability (machine st) of
                (result, m) \<Rightarrow> (result, st\<lparr>machine := m\<rparr>))"
  using assms
  by (simp_all add: NodeStageVolume_def Let_def Release_TryAcquire NodeState_machine_update)

lemma NodeUnstageVolume_lock:
  assumes "nusv_VolumeId req \<noteq> []" and "nusv_StagingTargetPath req \<noteq> []"
  shows "nusv_VolumeId req \<in> volumeLocks st \<Longrightarrow>
           NodeUnstageVolume ns req st =
             (Inl (Status Aborted (VolumeOperationAlreadyExists (nusv_VolumeId req))), st)"
    and "nusv_VolumeId req \<notin> volumeLocks st \<Longrightarrow>
           NodeUnstageVolume ns req st =
             (case NodeUnstageVolume_locked ns req (machine st) of
                (result, m) \<Rightarrow> (result, st\<lparr>machine := m\<rparr>))"
  using assms
  by (simp_all add: NodeUnstageVolume_def Let_def Release_TryAcquire NodeState_machine_update)

lemma NodePublishVolume_locks_unchanged:
  "volumeLocks (snd (NodePublishVolume ns req st)) = volumeLocks st"
  by (auto simp: NodePublishVolume_def Let_def TryAcquire_def Release_def
        split: option.splits prod.splits)

lemma NodeUnpublishVolume_locks_unchanged:
  "volumeLocks (snd (NodeUnpublishVolume ns req st)) = volumeLocks st"
  by (auto simp: NodeUnpublishVolume_def Let_def TryAcquire_def Release_def
        split: option.splits prod.splits)

lemma NodeStageVolume_locks_unchanged:
  "volumeLocks (snd (NodeStageVolume ns req st)) = volumeLocks st"
  by (auto simp: NodeStageVolume_def Let_def TryAcquire_def Release_def
        split: option.splits prod.splits)

lemma NodeUnstageVolume_locks_unchanged:
  "volumeLocks (snd (NodeUnstageVolume ns req st)) = volumeLocks st"
  by (auto simp: NodeUnstageVolume_def Let_def TryAcquire_def Release_def
        split: option.splits prod.splits)

text \<open>
  Claim C9. The four node operations that take the volume lock. Once its arguments have
  passed validation, each of \<open>NodeStageVolume\<close>, \<open>NodeUnstageVolume\<close>, \<open>NodePublishVolume\<close>
  and \<open>NodeUnpublishVolume\<close> answers \<open>Aborted\<close>, with a message naming the volume
  identifier, when the identifier is held (\<open>TryAcquire\<close> fails), and changes nothing.
  When the identifier is free, the operation runs its body on the machine and returns
  the body's result, a success or any of its errors, with the lock registry as it was
  before the call: the identifier has been released. For every request and every state,
  the set of held identifiers after the call is the set before it.
\<close>

theorem node_operations_release_the_lock:
  "(nsv_VolumeId sreq \<noteq> [] \<and> nsv_StagingTargetPath sreq \<noteq> []
      \<and> nsv_VolumeCapability sreq = Some scap \<longrightarrow>
      (nsv_VolumeId sreq \<in> volumeLocks st \<longrightarrow>
         NodeStageVolume ns sreq st =
           (Inl (Status Aborted (VolumeOperationAlreadyExists (nsv_VolumeId sreq))), st))
      \<and> (nsv_VolumeId sreq \<notin> volumeLocks st \<longrightarrow>
           NodeStageVolume ns sreq st =
             (case NodeStageVolume_locked ns sreq scap (machine st) of
                (result, m) \<Rightarrow> (result, st\<lparr>machine := m\<rparr>))))
   \<and> (nusv_VolumeId usreq \<noteq> [] \<and> nusv_StagingTargetPath usreq \<noteq> [] \<longrightarrow>
      (nusv_VolumeId usreq \<in> volumeLocks st \<longrightarrow>
         NodeUnstageVolume ns usreq st =
           (Inl (Status Aborted (VolumeOperationAlreadyExists (nusv_VolumeId usreq))), st))
      \<and> (nusv_VolumeId usreq \<notin> volumeLocks st \<longrightarrow>
           NodeUnstageVolume ns usreq st =
             (case NodeUnstageVolume_locked ns usreq (machine st) of
                (result, m) \<Rightarrow> (result, st\<lparr>machine := m\<rparr>))))
   \<and> (npv_VolumeId preq \<noteq> [] \<and> npv_StagingTargetPath preq \<noteq> [] \<and> npv_TargetPath preq \<noteq> []
      \<and> npv_VolumeCapability preq = Some pcap \<longrightarrow>
      (npv_VolumeId preq \<in> volumeLocks st \<longrightarrow>
         NodePublishVolume ns preq st =
           (Inl (Status Aborted (VolumeOperationAlreadyExists (npv_VolumeId preq))), st))
      \<and> (npv_VolumeId preq \<notin> volumeLocks st \<longrightarrow>
           NodePublishVolume ns preq st =
             (case NodePublishVolume_locked ns preq pcap (machine st) of
                (result, m) \<Rightarrow> (result, st\<lparr>machine := m\<rparr>))))
   \<and> (nupv_VolumeId upreq \<noteq> [] \<and> nupv_TargetPath upreq \<noteq> [] \<longrightarrow>
      (nupv_VolumeId upreq \<in> volumeLocks st \<longrightarrow>
         NodeUnpublishVolume ns upreq st =
           (Inl (Status Aborted (VolumeOperationAlreadyExists (nupv_VolumeId upreq))), st))
      \<and> (nupv_VolumeId upreq \<notin> volumeLocks st \<longrightarrow>
           NodeUnpublishVolume ns upreq st =
             (case NodeUnpublishVolume_locked ns upreq (machine st) of
                (result, m) \<Rightarrow> (result, st\<lparr>machine := m\<rparr>))))
   \<and> volumeLocks (snd (NodeStageVolume ns sreq st)) = volumeLocks st
   \<and> volumeLocks (snd (NodeUnstageVolume ns usreq st)) = volumeLocks st
   \<and> volumeLocks (snd (NodePublishVolume ns preq st)) = volumeLocks st
   \<and> volumeLocks (snd (NodeUnpublishVolume ns upreq st)) = volumeLocks st"
  apply (intro conjI)
  subgoal using NodeStageVolume_lock [of sreq scap st ns] by blast
  subgoal using NodeUnstageVolume_lock [of usreq st ns] by blast
  subgoal using NodePublishVolume_lock [of preq pcap st ns] by blast
  subgoal using NodeUnpublishVolume_lock [of upreq st ns] by blast
  subgoal by (rule NodeStageVolume_locks_unchanged)
  subgoal by (rule NodeUnstageVolume_locks_unchanged)
  subgoal by (rule NodePublishVolume_locks_unchanged)
  subgoal by (rule NodeUnpublishVolume_locks_unchanged)
  done


theorem node_operations_release_the_lock_witness:
  "NodePublishVolume memNode nodePublishD1
     \<lparr>volumeLocks = {''zone-a/d1''}, machine = machineWithD1\<rparr>
     = (Inl (Status Aborted ''An operation with the given Volume ID zone-a/d1 already exists''),
        \<lparr>volumeLocks = {''zone-a/d1''}, machine = machineWithD1\<rparr>)
   \<and> NodePublishVolume memNode nodePublishD1
       \<lparr>volumeLocks = {''zone-a/d2''}, machine = machineWithD1\<lparr>mountFails := True\<rparr>\<rparr>
       = (Inl (Status Internal ''NodePublishVolume mount of disk failed''),
          \<lparr>volumeLocks = {''zone-a/d2''}, machine = machineWithD1\<lparr>mountFails := True\<rparr>\<rparr>)
   \<and> NodeStageVolume memNode stageD1 \<lparr>volumeLocks = {}, machine = machineWithD1\<rparr>
       = (Inr (), \<lparr>volumeLocks = {},
                   machine = machineWithD1\<lparr>mountPoints := [''/staging/d1''],
                                           paths := [''/staging/d1'']\<rparr>\<rparr>)"
proof -
  let ?usreq = "\<lparr>nusv_VolumeId = ''zone-a/d1'', nusv_StagingTargetPath = ''/staging/d1''\<rparr>"
  let ?upreq = "\<lparr>nupv_VolumeId = ''zone-a/d1'', nupv_TargetPath = ''/pods/p1/d1''\<rparr>"
  note t = node_operations_release_the_lock
    [where ns = memNode and sreq = stageD1 and scap = mountCapability and preq = nodePublishD1
       and pcap = mountCapability and usreq = ?usreq and upreq = ?upreq]
  note eval = memNode_sel memIsLikelyNotMountPoint_def memMount_def machineWithD1_def
    mountCapability_def GetMount_def GetBlock_def Let_def
  have publish_fails: "NodePublishVolume_locked memNode nodePublishD1 mountCapability
      (machineWithD1\<lparr>mountFails := True\<rparr>)
      = (Inl (Status Internal ''NodePublishVolume mount of disk failed''),
         machineWithD1\<lparr>mountFails := True\<rparr>)"
    by (simp add: NodePublishVolume_locked_def NodePublishVolume_mount_def nodePublishD1_def eval)
  have stage: "NodeStageVolume_locked memNode stageD1 mountCapability machineWithD1
      = (Inr (), machineWithD1\<lparr>mountPoints := [''/staging/d1''], paths := [''/staging/d1'']\<rparr>)"
    by (simp add: NodeStageVolume_locked_def NodeStageVolume_mount_def stageD1_def
          VolumeIDToKey_d1 getDevicePath_d1 memNode_sel Let_def)
       (simp add: NodeStageVolume_mount_def eval)
  have a: "NodePublishVolume memNode nodePublishD1
     \<lparr>volumeLocks = {''zone-a/d1''}, machine = machineWithD1\<rparr>
     = (Inl (Status Aborted ''An operation with the given Volume ID zone-a/d1 already exists''),
        \<lparr>volumeLocks = {''zone-a/d1''}, machine = machineWithD1\<rparr>)"
    using t [where st = "\<lparr>volumeLocks = {''zone-a/d1''}, machine = machineWithD1\<rparr>"]
    by (simp add: nodePublishD1_def stageD1_def VolumeOperationAlreadyExists_def)
  have b: "NodePublishVolume memNode nodePublishD1
       \<lparr>volumeLocks = {''zone-a/d2''}, machine = machineWithD1\<lparr>mountFails := True\<rparr>\<rparr>
       = (Inl (Status Internal ''NodePublishVolume mount of disk failed''),
          \<lparr>volumeLocks = {''zone-a/d2''}, machine = machineWithD1\<lparr>mountFails := True\<rparr>\<rparr>)"
    using t [where st = "\<lparr>volumeLocks = {''zone-a/d2''},
                           machine = machineWithD1\<lparr>mountFails := True\<rparr>\<rparr>"] publish_fails
    by (simp add: nodePublishD1_def stageD1_def)
  have c: "NodeStageVolume memNode stageD1 \<lparr>volumeLocks = {}, machine = machineWithD1\<rparr>
       = (Inr (), \<lparr>volumeLocks = {},
                   machine = machineWithD1\<lparr>mountPoints := [''/staging/d1''],
                                           paths := [''/staging/d1'']\<rparr>\<rparr>)"
    using t [where st = "\<lparr>volumeLocks = {}, machine = machineWithD1\<rparr>"] stage
    by (simp add: nodePublishD1_def stageD1_def)
  from a b c show ?thesis by simp
qed

end
